theory Spec2Isabelle
  imports Main "HOL-Library.Sublist"
begin

section \<open>Python strings\<close>

text \<open>
  A Python \<^verbatim>\<open>str\<close> is a sequence of code points and \<^verbatim>\<open>len\<close> counts code points.
  The model uses \<^typ>\<open>string\<close> with one \<^typ>\<open>char\<close> per code point, so it covers the
  queries and responses whose code points lie below 256 (ASCII and Latin-1). The
  character classes below are the ones Python 3 assigns to that range.
\<close>

definition code_point :: "char \<Rightarrow> nat" where
  "code_point c = of_char c"

text \<open>\<^verbatim>\<open>str.isspace\<close>, the characters removed by \<^verbatim>\<open>str.strip()\<close>, the separators of
  \<^verbatim>\<open>str.split()\<close> and the class \<^verbatim>\<open>\s\<close> of \<^verbatim>\<open>re\<close>.\<close>

definition is_space :: "char \<Rightarrow> bool" where
  "is_space c = (code_point c \<in> set [9, 10, 11, 12, 13, 28, 29, 30, 31, 32, 133, 160])"

text \<open>The class \<^verbatim>\<open>\d\<close> (and \<^verbatim>\<open>[0-9]\<close>): below 256 only the ASCII digits are decimal digits.\<close>

definition is_digit :: "char \<Rightarrow> bool" where
  "is_digit c = (48 \<le> code_point c \<and> code_point c \<le> 57)"

text \<open>The class \<^verbatim>\<open>[a-zA-Z]\<close>.\<close>

definition is_ascii_alpha :: "char \<Rightarrow> bool" where
  "is_ascii_alpha c = (let n = code_point c in (65 \<le> n \<and> n \<le> 90) \<or> (97 \<le> n \<and> n \<le> 122))"

text \<open>\<^verbatim>\<open>str.isalpha\<close> on one character: the ASCII letters and the Latin-1 letters.\<close>

definition is_alpha :: "char \<Rightarrow> bool" where
  "is_alpha c = (let n = code_point c in
     (65 \<le> n \<and> n \<le> 90) \<or> (97 \<le> n \<and> n \<le> 122) \<or> n = 170 \<or> n = 181 \<or> n = 186 \<or>
     (192 \<le> n \<and> n \<le> 214) \<or> (216 \<le> n \<and> n \<le> 246) \<or> (248 \<le> n \<and> n \<le> 255))"

text \<open>\<^verbatim>\<open>str.isupper\<close> on one character.\<close>

definition is_upper :: "char \<Rightarrow> bool" where
  "is_upper c = (let n = code_point c in
     (65 \<le> n \<and> n \<le> 90) \<or> (192 \<le> n \<and> n \<le> 214) \<or> (216 \<le> n \<and> n \<le> 222))"

definition is_ascii_lower :: "char \<Rightarrow> bool" where
  "is_ascii_lower c = (97 \<le> code_point c \<and> code_point c \<le> 122)"

text \<open>\<^verbatim>\<open>str.lower()\<close>: every upper-case letter below 256 has its lower-case partner 32 places up.\<close>

definition py_lower_char :: "char \<Rightarrow> char" where
  "py_lower_char c = (if is_upper c then char_of (code_point c + 32) else c)"

definition py_lower :: "string \<Rightarrow> string" where
  "py_lower s = map py_lower_char s"

text \<open>Upper-casing of the ASCII letters, as needed by \<^verbatim>\<open>str.title()\<close> on ASCII words.\<close>

definition ascii_upper_char :: "char \<Rightarrow> char" where
  "ascii_upper_char c = (if is_ascii_lower c then char_of (code_point c - 32) else c)"

definition py_strip :: "string \<Rightarrow> string" where
  "py_strip s = rev (dropWhile is_space (rev (dropWhile is_space s)))"

text \<open>\<^verbatim>\<open>p in s\<close> for two strings.\<close>

fun contains :: "string \<Rightarrow> string \<Rightarrow> bool" where
  "contains [] p = (p = [])"
| "contains (c # cs) p = (prefix p (c # cs) \<or> contains cs p)"

text \<open>\<^verbatim>\<open>any(k in s for k in keywords)\<close>.\<close>

definition contains_any :: "string \<Rightarrow> string list \<Rightarrow> bool" where
  "contains_any s keywords = list_ex (contains s) keywords"

text \<open>The maximal runs of characters of a class, from left to right: what
  \<^verbatim>\<open>re.findall\<close> returns for a pattern \<^verbatim>\<open>[...]+\<close>.\<close>

fun runs_acc :: "(char \<Rightarrow> bool) \<Rightarrow> string \<Rightarrow> string \<Rightarrow> string list" where
  "runs_acc P w [] = (if w = [] then [] else [rev w])"
| "runs_acc P w (c # cs) =
     (if P c then runs_acc P (c # w) cs
      else if w = [] then runs_acc P [] cs
      else rev w # runs_acc P [] cs)"

definition runs :: "(char \<Rightarrow> bool) \<Rightarrow> string \<Rightarrow> string list" where
  "runs P s = runs_acc P [] s"

text \<open>\<^verbatim>\<open>str.split()\<close> without arguments: the maximal runs of non-space characters.\<close>

definition py_split :: "string \<Rightarrow> string list" where
  "py_split s = runs (\<lambda>c. \<not> is_space c) s"

text \<open>\<^verbatim>\<open>sep.join(words)\<close>.\<close>

fun py_join :: "string \<Rightarrow> string list \<Rightarrow> string" where
  "py_join sep [] = []"
| "py_join sep [w] = w"
| "py_join sep (w # v # ws) = w @ sep @ py_join sep (v # ws)"

text \<open>\<^verbatim>\<open>re.search\<close> tries the start positions from left to right, the end of the string
  included; the matcher gets the text from the start position on.\<close>

fun search_first :: "(string \<Rightarrow> 'a option) \<Rightarrow> string \<Rightarrow> 'a option" where
  "search_first m [] = m []"
| "search_first m (c # cs) = (case m (c # cs) of Some r \<Rightarrow> Some r | None \<Rightarrow> search_first m cs)"

section \<open>The input validator\<close>

text \<open>\<^verbatim>\<open>max(Counter(s).values())\<close>: the highest number of occurrences of one character.\<close>

definition max_count :: "string \<Rightarrow> nat" where
  "max_count s = fold max (map (count_list s) s) 0"

text \<open>
  \<^verbatim>\<open>re.search(r'(.{1,3})\1{4,}', s)\<close>. The group takes one to three characters other
  than the line feed (the dot does not match it), and the back-reference must follow at
  least four more times: the unit stands five times in a row. The engine tries the
  lengths 3, 2, 1 at every start position, so a match exists as soon as one of them fits.
\<close>

definition repeats_at :: "string \<Rightarrow> nat \<Rightarrow> bool" where
  "repeats_at s k = (let unit = take k s in
     length unit = k \<and> CHR 0x0A \<notin> set unit \<and> prefix (concat (replicate 5 unit)) s)"

fun has_small_repetition :: "string \<Rightarrow> bool" where
  "has_small_repetition [] = False"
| "has_small_repetition (c # cs) =
     (repeats_at (c # cs) 3 \<or> repeats_at (c # cs) 2 \<or> repeats_at (c # cs) 1 \<or>
      has_small_repetition cs)"

definition vowels :: string where
  "vowels = ''aeiou''"

definition consonants :: string where
  "consonants = ''bcdfghjklmnpqrstvwxyz''"

text \<open>
  The vowel and consonant test on the letters of the query. The source compares the
  quotient \<^verbatim>\<open>consonant_count / vowel_count\<close> with 8; for counts of a string this float
  comparison agrees with the integer comparison written here.
\<close>

definition suspicious_letters :: "string \<Rightarrow> bool" where
  "suspicious_letters s = (let query_letters = filter is_alpha s in
     if length query_letters > 5 then
       (let vowel_count = length (filter (\<lambda>c. c \<in> set vowels) query_letters);
            consonant_count = length (filter (\<lambda>c. c \<in> set consonants) query_letters)
        in (vowel_count = 0 \<and> consonant_count > 5) \<or>
           (vowel_count > 0 \<and> consonant_count > 8 * vowel_count))
     else False)"

text \<open>
  The tiling test for one pattern length \<^verbatim>\<open>i\<close>: the first \<^verbatim>\<open>i\<close> characters are repeated,
  cut to the length of the query and compared position by position. The source tests
  \<^verbatim>\<open>similarity / len(s) > 0.7\<close>, which for these integers is \<^verbatim>\<open>10 * similarity > 7 * len(s)\<close>.
\<close>

definition tiled_by :: "string \<Rightarrow> nat \<Rightarrow> bool" where
  "tiled_by s i = (let pattern = take i s;
       repetitions = length s div length pattern
     in if repetitions \<ge> 3 then
          (let reconstructed = take (length s) (concat (replicate repetitions pattern));
               similarity = length (filter (\<lambda>(a, b). a = b) (zip s reconstructed))
           in 10 * similarity > 7 * length s)
        else False)"

text \<open>\<^verbatim>\<open>re.match(r'^[...]+$', s)\<close>: a non-empty run of characters of the class up to the
  end of the string, or up to a line feed that ends the string.\<close>

definition matches_only :: "string \<Rightarrow> string \<Rightarrow> bool" where
  "matches_only cls s = (let body = takeWhile (\<lambda>c. c \<in> set cls) s;
       rest = dropWhile (\<lambda>c. c \<in> set cls) s
     in body \<noteq> [] \<and> (rest = [] \<or> rest = [CHR 0x0A]))"

definition random_patterns :: "string list" where
  "random_patterns = [''yh'', ''qwerty'', ''asdfgh'', ''zxcvbn'']"

text \<open>\<^verbatim>\<open>re.split(r'[^a-zA-Z]', s)\<close>: every character that is not an ASCII letter ends a
  piece, so two separators in a row give an empty piece.\<close>

fun split_non_alpha :: "string \<Rightarrow> string list" where
  "split_non_alpha [] = [[]]"
| "split_non_alpha (c # cs) =
     (if is_ascii_alpha c then
        (case split_non_alpha cs of w # ws \<Rightarrow> (c # w) # ws | [] \<Rightarrow> [[c]])
      else [] # split_non_alpha cs)"

definition common_words :: "string list" where
  "common_words = [''the'', ''and'', ''is'', ''in'', ''to'', ''of'', ''a'', ''that'', ''it'',
     ''with'', ''for'', ''as'', ''was'', ''on'', ''are'', ''you'', ''this'', ''be'', ''at'',
     ''have'', ''or'', ''not'', ''from'', ''by'', ''they'', ''we'', ''say'', ''her'', ''she'',
     ''an'', ''each'', ''which'', ''do'', ''how'', ''their'', ''if'', ''will'', ''up'',
     ''other'', ''about'', ''out'', ''many'', ''then'', ''them'', ''these'', ''so'', ''some'',
     ''what'', ''would'', ''make'', ''like'', ''into'', ''time'', ''has'', ''two'', ''more'',
     ''go'', ''no'', ''way'', ''could'', ''my'', ''than'', ''first'', ''been'', ''call'',
     ''who'', ''oil'', ''its'', ''now'', ''find'', ''long'', ''down'', ''day'', ''did'',
     ''get'', ''come'', ''made'', ''may'', ''part'', ''weather'', ''calculate'', ''news'',
     ''search'', ''tell'', ''me'', ''what'', ''when'', ''where'', ''why'', ''how'',
     ''university'', ''heriot'', ''watt'']"

definition valid_words :: "string \<Rightarrow> string list" where
  "valid_words s = filter (\<lambda>word. length word \<ge> 3 \<and> (word \<in> set common_words \<or> length word \<ge> 4))
     (map (\<lambda>word. py_strip (py_lower word)) (split_non_alpha s))"

text \<open>
  \<^verbatim>\<open>_is_meaningless_query\<close>: the rules in the order of the source, each one returning
  \<^verbatim>\<open>True\<close> as soon as it applies. The third rule compares the highest character count
  with \<^verbatim>\<open>len(s) * 0.3\<close>; the product of an integer with the double 0.3 rounds to the
  exact tenth multiple whenever that is an integer, so the test is \<^verbatim>\<open>10 * max_count >= 3 * len(s)\<close>.
\<close>

definition is_meaningless_query :: "string \<Rightarrow> bool" where
  "is_meaningless_query query = (let cleaned_query = py_lower (py_strip query);
       n = length cleaned_query
     in if n < 3 then True
        else if length (remdups cleaned_query) \<le> 2 \<and> n > 5 then True
        else if n > 10 \<and> length (remdups cleaned_query) \<le> 4 \<and>
                10 * max_count cleaned_query \<ge> 3 * n then True
        else if has_small_repetition cleaned_query then True
        else if suspicious_letters cleaned_query then True
        else if n > 10 \<and> list_ex (tiled_by cleaned_query) [2, 3, 4, 5] then True
        else if list_ex (\<lambda>cls. matches_only cls cleaned_query \<and> n > 8) random_patterns then True
        else if n > 10 \<and> valid_words cleaned_query = [] then True
        else False)"

section \<open>Regular expressions of the reflector\<close>

text \<open>
  Each pattern of the source is a matcher on the text that starts at a position; it gives
  the text of the capture group, or \<open>None\<close> when the pattern does not match there. The
  quantifiers of \<^verbatim>\<open>re\<close> are greedy and backtrack; the comments say why the greedy choice
  written here is the match the engine reports.
\<close>

text \<open>\<^verbatim>\<open>\d+(?:\.\d+)?\<close> at the head of the text: the digits, and the fraction when a dot and
  a digit follow. The matched text and the rest are returned.\<close>

definition take_number :: "string \<Rightarrow> (string \<times> string) option" where
  "take_number s = (let ds = takeWhile is_digit s; r = dropWhile is_digit s in
     if ds = [] then None
     else (case r of
         c # r' \<Rightarrow>
           if c = CHR ''.'' \<and> takeWhile is_digit r' \<noteq> []
           then Some (ds @ [c] @ takeWhile is_digit r', dropWhile is_digit r')
           else Some (ds, r)
       | [] \<Rightarrow> Some (ds, r)))"

text \<open>The class \<^verbatim>\<open>[+\-*/^]\<close>.\<close>

definition is_operator :: "char \<Rightarrow> bool" where
  "is_operator c = (c \<in> set ''+-*/^'')"

text \<open>The class \<^verbatim>\<open>[0-9+\-*/.^() ]\<close>.\<close>

definition is_expr_char :: "char \<Rightarrow> bool" where
  "is_expr_char c = (is_digit c \<or> c \<in> set ''+-*/.^() '')"

text \<open>\<^verbatim>\<open>\s*[+\-*/^]\s*\d+(?:\.\d+)?\<close> at the head of the text. White space, operators and
  digits are disjoint classes, so no shorter choice of a quantifier can succeed.\<close>

definition operator_operand :: "string \<Rightarrow> (string \<times> string) option" where
  "operator_operand s = (let ws1 = takeWhile is_space s in
     (case dropWhile is_space s of
        [] \<Rightarrow> None
      | c # r \<Rightarrow>
          if is_operator c then
            (case take_number (dropWhile is_space r) of
               None \<Rightarrow> None
             | Some (num, rest) \<Rightarrow> Some (ws1 @ [c] @ takeWhile is_space r @ num, rest))
          else None))"

lemma take_number_shorter:
  assumes "take_number s = Some (g, r)"
  shows "length r < length s"
proof -
  from assms have ne: "takeWhile is_digit s \<noteq> []"
    by (auto simp: take_number_def Let_def split: if_splits)
  have "length (takeWhile is_digit s) + length (dropWhile is_digit s) = length s"
    by (metis takeWhile_dropWhile_id length_append)
  with ne have b: "length (dropWhile is_digit s) < length s"
    by (cases "takeWhile is_digit s") auto
  from assms have "r = dropWhile is_digit s \<or>
      (\<exists>c r'. dropWhile is_digit s = c # r' \<and> r = dropWhile is_digit r')"
    by (auto simp: take_number_def Let_def split: if_splits list.splits)
  then show ?thesis
  proof
    assume "r = dropWhile is_digit s"
    with b show ?thesis by simp
  next
    assume "\<exists>c r'. dropWhile is_digit s = c # r' \<and> r = dropWhile is_digit r'"
    then obtain c r' where d: "dropWhile is_digit s = c # r'" and r: "r = dropWhile is_digit r'"
      by blast
    have "length r \<le> length r'"
      unfolding r by (rule length_dropWhile_le)
    moreover from b d have "length r' < length s"
      by simp
    ultimately show ?thesis by simp
  qed
qed

lemma operator_operand_shorter:
  assumes "operator_operand s = Some (m, r)"
  shows "length r < length s"
proof -
  have a: "length (dropWhile is_space s) \<le> length s"
    by (rule length_dropWhile_le)
  from assms obtain c t num where
    d: "dropWhile is_space s = c # t" and n: "take_number (dropWhile is_space t) = Some (num, r)"
    by (auto simp: operator_operand_def Let_def split: list.splits if_splits option.splits)
  have "length r < length (dropWhile is_space t)"
    using n by (rule take_number_shorter)
  moreover have "length (dropWhile is_space t) \<le> length t"
    by (rule length_dropWhile_le)
  ultimately show ?thesis using a d by simp
qed

text \<open>\<^verbatim>\<open>(?:\s*[+\-*/^]\s*\d+(?:\.\d+)?)*\<close>: as many further operands as follow.\<close>

function operand_tail :: "string \<Rightarrow> string" where
  "operand_tail s = (case operator_operand s of
       None \<Rightarrow> []
     | Some (m, r) \<Rightarrow> m @ operand_tail r)"
  by pat_completeness auto
termination
  by (relation "measure length") (auto dest: operator_operand_shorter)

declare operand_tail.simps [simp del]

text \<open>The first pattern of \<^verbatim>\<open>_extract_math_expression\<close>: a number, an operator, a number,
  and further operator-number pairs.\<close>

definition arithmetic_at :: "string \<Rightarrow> string option" where
  "arithmetic_at s = (case take_number s of
       None \<Rightarrow> None
     | Some (n1, r1) \<Rightarrow>
         (case operator_operand r1 of
            None \<Rightarrow> None
          | Some (m2, r2) \<Rightarrow> Some (n1 @ m2 @ operand_tail r2)))"

text \<open>A literal word under \<^verbatim>\<open>re.IGNORECASE\<close> at the head of the text; the rest is returned.\<close>

definition after_literal :: "string \<Rightarrow> string \<Rightarrow> string option" where
  "after_literal lit s = (if py_lower (take (length lit) s) = lit
     then Some (drop (length lit) s) else None)"

text \<open>
  \<^verbatim>\<open>\s+([0-9+\-*/.^() ]+)\<close> at the head of the text. The white space is taken greedily.
  When no character of the class follows it, the engine gives white space back, one
  character at a time and keeping at least one, until the group can start: the group
  can start only at a blank, and then holds that single blank.
\<close>

definition spaces_then_expr :: "string \<Rightarrow> string option" where
  "spaces_then_expr s = (let ws = takeWhile is_space s; r = dropWhile is_space s in
     if ws = [] then None
     else if takeWhile is_expr_char r \<noteq> [] then Some (takeWhile is_expr_char r)
     else if CHR '' '' \<in> set (tl ws) then Some '' ''
     else None)"

text \<open>The second pattern: \<^verbatim>\<open>calculate\s+([0-9+\-*/.^() ]+)\<close>.\<close>

definition calculate_at :: "string \<Rightarrow> string option" where
  "calculate_at s = (case after_literal ''calculate'' s of
       None \<Rightarrow> None
     | Some r \<Rightarrow> spaces_then_expr r)"

text \<open>The third pattern: \<^verbatim>\<open>what[\'s]*\s+([0-9+\-*/.^() ]+)\?*\<close>.\<close>

definition what_at :: "string \<Rightarrow> string option" where
  "what_at s = (case after_literal ''what'' s of
       None \<Rightarrow> None
     | Some r \<Rightarrow> spaces_then_expr (dropWhile (\<lambda>c. c = CHR 0x27 \<or> py_lower_char c = CHR ''s'') r))"

text \<open>The fourth pattern: \<^verbatim>\<open>([0-9+\-*/.^() ]+)\s*=\<close>. A shorter group leaves characters
  of the class in front of the equals sign, which only blanks survive, and then the
  longest group already matches.\<close>

definition equation_at :: "string \<Rightarrow> string option" where
  "equation_at s = (let run = takeWhile is_expr_char s; r = dropWhile is_expr_char s in
     if run = [] then None
     else (case dropWhile is_space r of
         c # _ \<Rightarrow> if c = CHR ''='' then Some run else None
       | [] \<Rightarrow> None))"

text \<open>The check on a captured expression: it holds a digit and an operator.\<close>

definition plausible_expression :: "string \<Rightarrow> bool" where
  "plausible_expression expr = (list_ex is_digit expr \<and> list_ex is_operator expr)"

text \<open>The loop over the patterns: the first pattern whose first match passes the check
  gives the expression, stripped.\<close>

fun first_plausible :: "string option list \<Rightarrow> string option" where
  "first_plausible [] = None"
| "first_plausible (None # ms) = first_plausible ms"
| "first_plausible (Some g # ms) =
     (if plausible_expression (py_strip g) then Some (py_strip g) else first_plausible ms)"

text \<open>\<^verbatim>\<open>_extract_math_expression\<close>. The multiplication sign (code point 215) and the
  division sign (247) are replaced first.\<close>

definition extract_math_expression :: "string \<Rightarrow> string option" where
  "extract_math_expression query = (let query_clean =
       map (\<lambda>c. if code_point c = 215 then CHR ''*'' else if code_point c = 247 then CHR ''/'' else c) query
     in first_plausible [search_first arithmetic_at query_clean,
          search_first calculate_at query_clean,
          search_first what_at query_clean,
          search_first equation_at query_clean])"

text \<open>The patterns of \<^verbatim>\<open>_extract_result_from_response\<close>.\<close>

text \<open>\<^verbatim>\<open>=\s*(\d+(?:\.\d+)?)\<close> and \<^verbatim>\<open>:\s*(\d+(?:\.\d+)?)\<close>.\<close>

definition number_after_sign :: "char \<Rightarrow> string \<Rightarrow> string option" where
  "number_after_sign sign s = (case s of
       [] \<Rightarrow> None
     | c # r \<Rightarrow> if c = sign then map_option fst (take_number (dropWhile is_space r)) else None)"

text \<open>\<^verbatim>\<open>result[:\s]+(\d+(?:\.\d+)?)\<close> and the same with \<^verbatim>\<open>answer\<close>.\<close>

definition number_after_word :: "string \<Rightarrow> string \<Rightarrow> string option" where
  "number_after_word word s = (case after_literal word s of
       None \<Rightarrow> None
     | Some r \<Rightarrow>
         if takeWhile (\<lambda>c. c = CHR '':'' \<or> is_space c) r = [] then None
         else map_option fst (take_number (dropWhile (\<lambda>c. c = CHR '':'' \<or> is_space c) r)))"

text \<open>\<^verbatim>\<open>(\d+(?:\.\d+)?)$\<close>: the dollar matches at the end of the string and in front of a
  line feed that ends it.\<close>

definition number_at_end :: "string \<Rightarrow> string option" where
  "number_at_end s = (case take_number s of
       None \<Rightarrow> None
     | Some (g, r) \<Rightarrow> if r = [] \<or> r = [CHR 0x0A] then Some g else None)"

text \<open>\<^verbatim>\<open>re.findall(r'\d+(?:\.\d+)?', s)\<close>: the matches from left to right, each search
  starting where the previous match ended.\<close>

function find_numbers :: "string \<Rightarrow> string list" where
  "find_numbers [] = []"
| "find_numbers (c # cs) = (case take_number (c # cs) of
       None \<Rightarrow> find_numbers cs
     | Some (g, r) \<Rightarrow> g # find_numbers r)"
  by pat_completeness auto
termination
  by (relation "measure length") (auto dest: take_number_shorter)

section \<open>Python values and the primitives that are not repository code\<close>

text \<open>
  The reflector calls the built-in \<^verbatim>\<open>eval\<close> and computes with floats. Neither is code of
  the repository, and IEEE arithmetic is not modelled: the float type is the parameter
  \<^typ>\<open>'f\<close> and the three primitives that touch it are the fields of a record which every
  function of the reflector takes as its first argument. Integers are Python's unbounded
  integers; a value that is neither an int nor a float (the empty tuple, a complex
  number) is \<open>OtherV\<close>.
\<close>

datatype 'f pyval = IntV int | FloatV 'f | OtherV

datatype exn = SyntaxError | ValueError | ZeroDivisionError | TypeError | OtherException

datatype 'f eval_result = Value "'f pyval" | Raises exn

text \<open>
  \<^item> \<open>py_eval\<close>: \<^verbatim>\<open>eval(s)\<close> on a string of digits, operators, brackets, dots and blanks;
  \<^item> \<open>py_float\<close>: \<^verbatim>\<open>float(s)\<close> on a digit string with a fraction;
  \<^item> \<open>py_close\<close>: \<^verbatim>\<open>abs(a - b) < 0.01\<close> when one of the two is a float; \<open>None\<close> when the
    subtraction raises.
\<close>

record 'f python =
  py_eval :: "string \<Rightarrow> 'f eval_result"
  py_float :: "string \<Rightarrow> 'f"
  py_close :: "'f pyval \<Rightarrow> 'f pyval \<Rightarrow> bool option"

text \<open>\<^verbatim>\<open>int(s)\<close> on a string of ASCII digits.\<close>

definition decimal_value :: "string \<Rightarrow> nat" where
  "decimal_value s = fold (\<lambda>c n. 10 * n + (code_point c - 48)) s 0"

text \<open>\<^verbatim>\<open>str(n)\<close> for an integer.\<close>

fun decimal_digits :: "nat \<Rightarrow> string" where
  "decimal_digits n = (if n < 10 then [char_of (48 + n)]
     else decimal_digits (n div 10) @ [char_of (48 + n mod 10)])"

declare decimal_digits.simps [simp del]

definition py_str_int :: "int \<Rightarrow> string" where
  "py_str_int i = (if i < 0 then CHR ''-'' # decimal_digits (nat (- i)) else decimal_digits (nat i))"

text \<open>\<^verbatim>\<open>float(g) if '.' in g else int(g)\<close>.\<close>

definition number_value :: "'f python \<Rightarrow> string \<Rightarrow> 'f pyval" where
  "number_value py g = (if CHR ''.'' \<in> set g then FloatV (py_float py g)
     else IntV (int (decimal_value g)))"

fun first_some :: "'a option list \<Rightarrow> 'a option" where
  "first_some [] = None"
| "first_some (None # ms) = first_some ms"
| "first_some (Some g # ms) = Some g"

text \<open>
  \<^verbatim>\<open>_extract_result_from_response\<close>: the five patterns in order, then the last number
  anywhere in the response. The conversions cannot fail on a text the patterns capture,
  so the \<^verbatim>\<open>except ValueError\<close> branches are not reached.
\<close>

definition extract_result_from_response :: "'f python \<Rightarrow> string \<Rightarrow> 'f pyval option" where
  "extract_result_from_response py response =
     (case first_some [search_first (number_after_sign (CHR ''='')) response,
          search_first (number_after_word ''result'') response,
          search_first (number_after_word ''answer'') response,
          search_first number_at_end response,
          search_first (number_after_sign (CHR '':'')) response] of
        Some g \<Rightarrow> Some (number_value py g)
      | None \<Rightarrow>
          (let numbers = find_numbers response in
           if numbers = [] then None else Some (number_value py (last numbers))))"

section \<open>The reflector\<close>

record 'f math_validation =
  is_correct :: bool
  expected_result :: "'f pyval option"
  provided_result :: "'f pyval option"
  expression :: "string option"

definition is_float :: "'f pyval \<Rightarrow> bool" where
  "is_float v = (case v of FloatV _ \<Rightarrow> True | _ \<Rightarrow> False)"

definition allowed_chars :: string where
  "allowed_chars = ''0123456789+-*/(). ''"

text \<open>\<^verbatim>\<open>expression.replace('^', '**').replace('x', '*').replace('X', '*')\<close>.\<close>

definition safe_expression :: "string \<Rightarrow> string" where
  "safe_expression expr = concat (map (\<lambda>c.
       if c = CHR ''^'' then ''**'' else if c = CHR ''x'' \<or> c = CHR ''X'' then ''*'' else [c]) expr)"

text \<open>
  \<^verbatim>\<open>_validate_mathematical_answer\<close>. An exception of \<^verbatim>\<open>eval\<close> is caught by the inner
  handler (syntax, value and division errors) or by the outer one (every other
  exception); both set \<^verbatim>\<open>is_correct\<close> to true and leave the results empty. An exception
  of the comparison reaches the outer handler after both results were stored. Two
  values that are not floats are compared with \<^verbatim>\<open>==\<close>; the provided result is an int
  then, which a tuple or a complex number never equals.
\<close>

definition validate_mathematical_answer :: "'f python \<Rightarrow> string \<Rightarrow> string \<Rightarrow> 'f math_validation" where
  "validate_mathematical_answer py query response =
     (case extract_math_expression query of
        None \<Rightarrow> \<lparr>is_correct = False, expected_result = None, provided_result = None,
                 expression = None\<rparr>
      | Some expr \<Rightarrow>
          if expr = [] then
            \<lparr>is_correct = False, expected_result = None, provided_result = None,
             expression = None\<rparr>
          else if list_all (\<lambda>c. c \<in> set allowed_chars) (safe_expression expr) then
            (case py_eval py (safe_expression expr) of
               Raises e \<Rightarrow>
                 \<lparr>is_correct = True, expected_result = None, provided_result = None,
                  expression = Some expr\<rparr>
             | Value expected \<Rightarrow>
                 (case extract_result_from_response py response of
                    None \<Rightarrow>
                      \<lparr>is_correct = False, expected_result = Some expected,
                       provided_result = None, expression = Some expr\<rparr>
                  | Some provided \<Rightarrow>
                      \<lparr>is_correct =
                         (if is_float expected \<or> is_float provided then
                            (case py_close py expected provided of
                               Some close \<Rightarrow> close
                             | None \<Rightarrow> True)
                          else expected = provided),
                       expected_result = Some expected, provided_result = Some provided,
                       expression = Some expr\<rparr>))
          else
            \<lparr>is_correct = False, expected_result = None, provided_result = None,
             expression = Some expr\<rparr>)"

text \<open>
  The messages of the reflector that carry a computed number or a pictograph are kept as
  constructors; their text is the comment beside each.
\<close>

datatype 'f remark =
    Math_verified "'f pyval option"
      \<comment> \<open>Mathematical calculation verified as correct: (expected)\<close>
  | Math_mismatch "'f pyval option" "'f pyval option"
      \<comment> \<open>Mathematical error: Expected (expected), got (provided)\<close>
  | Math_unverifiable
      \<comment> \<open>Could not verify mathematical calculation\<close>
  | Math_number_not_found
      \<comment> \<open>Mathematical query but no numerical answer found\<close>
  | Weather_info_present
      \<comment> \<open>Contains weather-related information\<close>
  | Weather_info_absent
      \<comment> \<open>Weather query but no weather information in response\<close>
  | Info_too_brief
      \<comment> \<open>Informational query but response seems too brief\<close>
  | Response_too_short
      \<comment> \<open>Response appears too short\<close>
  | Response_too_long
      \<comment> \<open>Response might be unnecessarily long\<close>
  | Math_check_passed
      \<comment> \<open>(check mark) Mathematical calculation verified as correct\<close>
  | Math_check_failed "'f pyval option" "'f pyval option"
      \<comment> \<open>(cross mark) Mathematical error: Expected (expected), got (provided)\<close>
  | Has_calculation
      \<comment> \<open>Contains appropriate numerical calculation for math query\<close>
  | Math_answer_missing
      \<comment> \<open>Mathematical query missing numerical answer\<close>
  | Has_weather_info
      \<comment> \<open>Contains relevant weather information\<close>
  | Weather_info_missing
      \<comment> \<open>Weather query missing weather information\<close>
  | Has_factual_info
      \<comment> \<open>Contains appropriate factual information\<close>
  | Info_very_brief
      \<comment> \<open>Informational query has very brief response\<close>
  | Strong_reasoning nat
      \<comment> \<open>Strong reasoning process ((score)%)\<close>
  | Adequate_reasoning nat
      \<comment> \<open>Adequate reasoning process ((score)%)\<close>
  | Basic_reasoning nat
      \<comment> \<open>Basic reasoning process ((score)%)\<close>
  | AI_confirms
      \<comment> \<open>AI model confirms answer correctness\<close>
  | AI_concerns
      \<comment> \<open>AI model has concerns about the answer\<close>
  | AI_unavailable
      \<comment> \<open>AI validation unavailable\<close>

record 'f answer_analysis =
  answer_type :: string
  contains_calculation :: bool
  contains_factual_info :: bool
  response_length :: nat
  specific_patterns :: "'f remark list"
  potential_issues :: "'f remark list"
  math_validation :: "'f math_validation option"

text \<open>\<^verbatim>\<open>_analyze_answer_content\<close>: the answer type by keywords of the query, the
  features the response must have for that type, and the length checks.\<close>

definition analyze_answer_content :: "'f python \<Rightarrow> string \<Rightarrow> string \<Rightarrow> 'f answer_analysis" where
  "analyze_answer_content py query response =
     (let query_lower = py_lower query;
          response_lower = py_lower response;
          analysis = \<lparr>answer_type = ''unknown'', contains_calculation = False,
             contains_factual_info = False, response_length = length response,
             specific_patterns = [], potential_issues = [], math_validation = None\<rparr>;
          typed =
            (if contains_any query_lower [''calculate'', ''math'', ''+'', ''-'', ''*'', ''/'', ''='']
             then
               (if list_ex is_digit response then
                  (let mv = validate_mathematical_answer py query response in
                   if is_correct mv then
                     analysis\<lparr>answer_type := ''mathematical'', contains_calculation := True,
                       math_validation := Some mv,
                       specific_patterns := [Math_verified (expected_result mv)]\<rparr>
                   else if expected_result mv \<noteq> None then
                     analysis\<lparr>answer_type := ''mathematical'', contains_calculation := True,
                       math_validation := Some mv,
                       potential_issues :=
                         [Math_mismatch (expected_result mv) (provided_result mv)]\<rparr>
                   else
                     analysis\<lparr>answer_type := ''mathematical'', contains_calculation := True,
                       math_validation := Some mv,
                       potential_issues := [Math_unverifiable]\<rparr>)
                else
                  analysis\<lparr>answer_type := ''mathematical'',
                    potential_issues := [Math_number_not_found]\<rparr>)
             else if contains_any query_lower [''weather'', ''temperature'', ''climate''] then
               (if contains_any response_lower
                     [''temperature'', ''degrees'', ''weather'', ''sunny'', ''cloudy'', ''rain'']
                then analysis\<lparr>answer_type := ''weather'', contains_factual_info := True,
                       specific_patterns := [Weather_info_present]\<rparr>
                else analysis\<lparr>answer_type := ''weather'',
                       potential_issues := [Weather_info_absent]\<rparr>)
             else if contains_any query_lower
                   [''what'', ''who'', ''where'', ''when'', ''why'', ''how''] then
               (if length response > 30
                then analysis\<lparr>answer_type := ''informational'', contains_factual_info := True\<rparr>
                else analysis\<lparr>answer_type := ''informational'',
                       potential_issues := [Info_too_brief]\<rparr>)
             else analysis)
      in if length response < 10 then
           typed\<lparr>potential_issues := potential_issues typed @ [Response_too_short]\<rparr>
         else if length response > 500 then
           typed\<lparr>potential_issues := potential_issues typed @ [Response_too_long]\<rparr>
         else typed)"

text \<open>One entry of the reasoning trace, \<^verbatim>\<open>{'step': ..., 'content': ...}\<close>.\<close>

record reasoning_step =
  step :: string
  content :: string

record reasoning_validation =
  step_count :: nat
  logical_consistency :: bool
  completeness_score :: nat
  step_issues :: "string list"
  missing_steps :: "string list"
  reasoning_quality :: string

definition critical_steps :: "string list" where
  "critical_steps = [''Query Analysis'', ''Tool Selection'', ''Tool Execution'']"

text \<open>
  \<^verbatim>\<open>_validate_reasoning_chain\<close>. The completion ratio of the source is one of 0, 1/3,
  2/3 and 1, raised to 0.8 when the trace has three steps or more, and the score is
  \<^verbatim>\<open>int(ratio * 100)\<close>: 0, 33, 66, 80 or 100, which the integer division below gives.
  The query only selects a list of expected steps that the source never reads.
\<close>

definition validate_reasoning_chain :: "reasoning_step list \<Rightarrow> string \<Rightarrow> reasoning_validation" where
  "validate_reasoning_chain reasoning_steps original_query =
     (let actual_steps = map step reasoning_steps;
          missing = filter (\<lambda>critical_step.
              \<not> list_ex (\<lambda>actual_step. contains (py_lower actual_step) (py_lower critical_step))
                  actual_steps) critical_steps;
          issues = concat (map (\<lambda>(i, st).
              if length (content st) < 5
              then [''Step '' @ decimal_digits (i + 1) @ '' ('' @ step st @ ''): Very minimal content'']
              else []) (enumerate 0 reasoning_steps));
          completion = (if length critical_steps > 0
             then ((length critical_steps - length missing) * 100) div length critical_steps
             else 100);
          score = (if length actual_steps \<ge> 3 then max completion 80 else completion)
      in \<lparr>step_count = length reasoning_steps,
          logical_consistency = (score \<ge> 40),
          completeness_score = score,
          step_issues = issues,
          missing_steps = missing,
          reasoning_quality =
            (if score \<ge> 80 \<and> issues = [] then ''Excellent''
             else if score \<ge> 60 then ''Good''
             else if score \<ge> 40 then ''Acceptable''
             else ''Poor'')\<rparr>)"

text \<open>
  \<^verbatim>\<open>str(reasoning_steps)\<close>: the \<^verbatim>\<open>repr\<close> of a list of dictionaries. A string is put in
  single quotes, or in double quotes when it holds a single quote and no double quote;
  the quote and the backslash are escaped, tab, line feed and carriage return become
  \<^verbatim>\<open>\t\<close>, \<^verbatim>\<open>\n\<close>, \<^verbatim>\<open>\r\<close>, and every other character that is not printable becomes
  \<^verbatim>\<open>\xhh\<close>.
\<close>

definition is_printable :: "char \<Rightarrow> bool" where
  "is_printable c = (let n = code_point c in
     32 \<le> n \<and> n \<noteq> 127 \<and> \<not> (128 \<le> n \<and> n \<le> 160) \<and> n \<noteq> 173)"

definition hex_digit :: "nat \<Rightarrow> char" where
  "hex_digit n = ''0123456789abcdef'' ! (n mod 16)"

definition repr_char :: "char \<Rightarrow> char \<Rightarrow> string" where
  "repr_char quote c =
     (if c = quote \<or> c = CHR 0x5C then [CHR 0x5C, c]
      else if c = CHR 0x09 then [CHR 0x5C, CHR ''t'']
      else if c = CHR 0x0A then [CHR 0x5C, CHR ''n'']
      else if c = CHR 0x0D then [CHR 0x5C, CHR ''r'']
      else if is_printable c then [c]
      else [CHR 0x5C, CHR ''x'', hex_digit (code_point c div 16), hex_digit (code_point c)])"

definition py_repr :: "string \<Rightarrow> string" where
  "py_repr s = (let quote = (if CHR 0x27 \<in> set s \<and> CHR 0x22 \<notin> set s then CHR 0x22 else CHR 0x27)
     in [quote] @ concat (map (repr_char quote) s) @ [quote])"

definition str_of_steps :: "reasoning_step list \<Rightarrow> string" where
  "str_of_steps steps = ''['' @ py_join '', ''
     (map (\<lambda>st. [CHR ''{'', CHR 0x27] @ ''step'' @ [CHR 0x27] @ '': '' @ py_repr (step st) @ '', '' @
                 [CHR 0x27] @ ''content'' @ [CHR 0x27] @ '': '' @ py_repr (content st) @ ''}'') steps)
     @ '']''"

record ai_validation =
  ai_confidence :: int
  ai_decision :: string
  ai_reasoning :: string
  model_used :: string
  validation_successful :: bool

text \<open>
  \<^verbatim>\<open>_ai_powered_validation\<close>: the rule-based scorer. The three stages of the source
  (category, response length, tool names in the trace) each extend the two lists of
  findings and move the confidence.
\<close>

definition ai_powered_validation :: "string \<Rightarrow> string \<Rightarrow> reasoning_step list \<Rightarrow> ai_validation" where
  "ai_powered_validation query response reasoning_steps =
     (let query_lower = py_lower query;
          response_lower = py_lower response;
          (issues1, positives1, confidence1) =
            (if contains_any query_lower [''calculate'', ''math'', ''+'', ''-'', ''*'', ''/''] then
               (if list_ex is_digit response
                then ([], [''Contains numerical result for math query''], 85)
                else ([''Mathematical query missing numerical answer''], [], 30))
             else if contains_any query_lower [''weather'', ''temperature'', ''climate''] then
               (if contains_any response_lower [''temperature'', ''degrees'', ''weather'', ''sunny'',
                     ''cloudy'', ''rain'', ''celsius'', ''fahrenheit'']
                then ([], [''Contains weather-related information''], 80)
                else ([''Weather query lacks weather information''], [], 40))
             else if contains_any query_lower [''what'', ''who'', ''where'', ''when'', ''why'',
                     ''how'', ''explain'', ''define''] then
               (if length response > 20
                then ([], [''Provides substantial informational content''], 75)
                else ([''Informational query has very brief response''], [], 50))
             else ([], [''Response addresses the query appropriately''], 70::int));
          (issues_found, positives2, confidence2) =
            (if length response > 100
             then (issues1, positives1 @ [''Detailed response provided''], confidence1)
             else if length response < 10
             then (issues1 @ [''Response appears too brief''], positives1, confidence1 - 20)
             else (issues1, positives1, confidence1));
          tool_mentioned = contains_any (py_lower (str_of_steps reasoning_steps))
             [''calculator'', ''weather'', ''search'', ''news''];
          (positive_indicators, confidence3) =
            (if tool_mentioned
             then (positives2 @ [''Appropriate tool usage detected in reasoning''], confidence2 + 5)
             else (positives2, confidence2))
      in if issues_found \<noteq> [] \<and> length issues_found \<ge> length positive_indicators then
           \<lparr>ai_confidence = max (confidence3 - 20) 20,
            ai_decision = ''incorrect'',
            ai_reasoning = ''Issues identified: '' @ py_join '', '' issues_found,
            model_used = ''Rule-Based Validator'',
            validation_successful = True\<rparr>
         else
           \<lparr>ai_confidence = min (confidence3 + 10) 90,
            ai_decision = ''correct'',
            ai_reasoning = ''Validation passed: '' @ py_join '', '' positive_indicators,
            model_used = ''Rule-Based Validator'',
            validation_successful = True\<rparr>)"

text \<open>The text of the verdict: \<^verbatim>\<open>ANSWER FLAGGED:\<close> with the major issues, or
  \<^verbatim>\<open>ANSWER VALIDATED:\<close> with the reasoning parts, in both cases joined by a bar.\<close>

datatype 'f verdict_text = Answer_flagged "'f remark list" | Answer_validated "'f remark list"

record 'f decision =
  decision_is_correct :: bool
  confidence :: int
  reasoning :: "'f verdict_text"
  suggestions :: "'f remark list"

text \<open>Of the messages in \<^verbatim>\<open>potential_issues\<close> none contains
  \<^verbatim>\<open>lacks clear result format\<close> and one contains \<^verbatim>\<open>too brief\<close>.\<close>

definition is_filtered_issue :: "'f remark \<Rightarrow> bool" where
  "is_filtered_issue issue = (case issue of Info_too_brief \<Rightarrow> True | _ \<Rightarrow> False)"

text \<open>
  \<^verbatim>\<open>_make_validation_decision\<close>. For an informational answer without factual
  information the source evaluates \<^verbatim>\<open>len(answer_analysis.get('response_length', 0)) < 20\<close>;
  the stored length is an int, so \<^verbatim>\<open>len\<close> raises \<^verbatim>\<open>TypeError\<close> and nothing catches it.
\<close>

definition make_validation_decision ::
    "'f answer_analysis \<Rightarrow> reasoning_validation \<Rightarrow> ai_validation \<Rightarrow> exn + 'f decision" where
  "make_validation_decision answer_analysis reasoning_validation ai_validation =
     (let (parts1, issues1, confidence1) =
            (case math_validation answer_analysis of
               None \<Rightarrow> ([], [], 85::int)
             | Some math_val \<Rightarrow>
                 if is_correct math_val then ([Math_check_passed], [], 90)
                 else ([], [Math_check_failed (expected_result math_val)
                                (provided_result math_val)], 30))
      in if answer_type answer_analysis = ''informational'' \<and>
            \<not> contains_factual_info answer_analysis
         then Inl TypeError
         else
           (let (parts2, major_issues) =
                  (if answer_type answer_analysis = ''mathematical'' then
                     (if contains_calculation answer_analysis
                      then (parts1 @ [Has_calculation], issues1)
                      else (parts1, issues1 @ [Math_answer_missing]))
                   else if answer_type answer_analysis = ''weather'' then
                     (if contains_factual_info answer_analysis
                      then (parts1 @ [Has_weather_info], issues1)
                      else (parts1, issues1 @ [Weather_info_missing]))
                   else if answer_type answer_analysis = ''informational'' then
                     (parts1 @ [Has_factual_info], issues1)
                   else (parts1, issues1));
                reasoning_score = completeness_score reasoning_validation;
                parts3 = parts2 @
                  [if reasoning_score \<ge> 80 then Strong_reasoning reasoning_score
                   else if reasoning_score \<ge> 60 then Adequate_reasoning reasoning_score
                   else Basic_reasoning reasoning_score];
                (reasoning_parts, confidence2) =
                  (if validation_successful ai_validation then
                     (if ai_decision ai_validation = ''correct''
                      then (parts3 @ [AI_confirms], min (confidence1 + 5) 95)
                      else if ai_decision ai_validation = ''incorrect''
                      then (parts3 @ [AI_concerns], max (confidence1 - 15) 40)
                      else (parts3, confidence1))
                   else (parts3 @ [AI_unavailable], confidence1))
            in if major_issues \<noteq> [] then
                 Inr \<lparr>decision_is_correct = False,
                      confidence = max (confidence2 - 30) 20,
                      reasoning = Answer_flagged major_issues,
                      suggestions = major_issues\<rparr>
               else
                 Inr \<lparr>decision_is_correct = True,
                      confidence = confidence2,
                      reasoning = Answer_validated reasoning_parts,
                      suggestions = take 2 (filter (\<lambda>issue. \<not> is_filtered_issue issue)
                                               (potential_issues answer_analysis))\<rparr>))"

record 'f validation_report =
  timestamp :: string
  original_query :: string
  mrkl_response :: string
  validation_decision :: bool
  confidence_level :: int
  validation_reasoning :: "'f verdict_text"
  report_answer_analysis :: "'f answer_analysis"
  report_reasoning_validation :: reasoning_validation
  report_ai_validation :: ai_validation
  improvement_suggestions :: "'f remark list"
  validation_status :: string

text \<open>
  \<^verbatim>\<open>validate_response\<close>. The clock reading and the validation history of the reflector
  are passed in; the result is the exception, or the report with the new history.
\<close>

definition validate_response ::
    "'f python \<Rightarrow> string \<Rightarrow> 'f validation_report list \<Rightarrow> string \<Rightarrow> string \<Rightarrow> reasoning_step list
     \<Rightarrow> exn + ('f validation_report \<times> 'f validation_report list)" where
  "validate_response py now validation_history query response reasoning_steps =
     (let answer_analysis = analyze_answer_content py query response;
          reasoning_validation = validate_reasoning_chain reasoning_steps query;
          ai_validation = ai_powered_validation query response reasoning_steps
      in case make_validation_decision answer_analysis reasoning_validation ai_validation of
           Inl e \<Rightarrow> Inl e
         | Inr final_decision \<Rightarrow>
             (let validation_report =
                \<lparr>timestamp = now,
                 original_query = query,
                 mrkl_response = response,
                 validation_decision = decision_is_correct final_decision,
                 confidence_level = confidence final_decision,
                 validation_reasoning = reasoning final_decision,
                 report_answer_analysis = answer_analysis,
                 report_reasoning_validation = reasoning_validation,
                 report_ai_validation = ai_validation,
                 improvement_suggestions = suggestions final_decision,
                 validation_status =
                   (if decision_is_correct final_decision then ''CORRECT'' else ''INCORRECT'')\<rparr>
              in Inr (validation_report, validation_history @ [validation_report])))"

section \<open>The agent: routing\<close>

text \<open>
  \<^verbatim>\<open>think\<close> resets the reasoning trace, records the query analysis, rejects a
  meaningless query with the tool name \<^verbatim>\<open>invalid\<close> and otherwise walks through the
  keyword lists in the order of the source. It returns the tool name and the new trace.
\<close>

definition think :: "string \<Rightarrow> string \<times> reasoning_step list" where
  "think query =
     (let steps = [\<lparr>step = ''Query Analysis'',
                    content = ''Analyzing user query: '' @ [CHR 0x27] @ query @ [CHR 0x27]\<rparr>]
      in if is_meaningless_query query then
           (''invalid'', steps @ [\<lparr>step = ''Input Validation'',
               content = ''Detected meaningless or random input - cannot process''\<rparr>])
         else
           (let query_lower = py_lower query;
                (selected_tool, why) =
                  (if contains_any query_lower [''calculate'', ''math'', ''+'', ''-'', ''*'', ''/'',
                        ''='', ''sum'', ''multiply'', ''divide'', ''compute'', ''formula'']
                   then (''calculator'',
                         ''Detected mathematical operations - selecting Calculator tool'')
                   else if contains_any query_lower [''weather'', ''temperature'', ''rain'',
                        ''sunny'', ''climate'', ''forecast'', ''humidity'', ''wind'']
                   then (''weather'', ''Detected weather-related query - selecting Weather tool'')
                   else if contains_any query_lower [''news'', ''latest'', ''recent'',
                        ''current events'', ''breaking'', ''today'', ''yesterday'', ''happening'']
                   then (''news'',
                         ''Detected news/current events request - selecting News tool'')
                   else if contains_any query_lower [''what is'', ''tell me about'', ''define'',
                        ''explain'', ''information'', ''who is'', ''when did'', ''where is'',
                        ''how does'']
                   then (''search'',
                         ''Detected general information request - selecting Search tool'')
                   else (''search'',
                         ''General query detected - defaulting to Search tool for comprehensive information''))
            in (selected_tool, steps @ [\<lparr>step = ''Tool Selection'', content = why\<rparr>])))"

text \<open>
  The router as the specification words it: an ordered table of keyword sets with their
  tools, the first row with a keyword in the lower-cased query deciding, and
  \<^verbatim>\<open>search\<close> when no row matches.
\<close>

definition arithmetic_keywords :: "string list" where
  "arithmetic_keywords = [''calculate'', ''math'', ''+'', ''-'', ''*'', ''/'', ''='', ''sum'',
     ''multiply'', ''divide'', ''compute'', ''formula'']"

definition weather_keywords :: "string list" where
  "weather_keywords = [''weather'', ''temperature'', ''rain'', ''sunny'', ''climate'',
     ''forecast'', ''humidity'', ''wind'']"

definition news_keywords :: "string list" where
  "news_keywords = [''news'', ''latest'', ''recent'', ''current events'', ''breaking'', ''today'',
     ''yesterday'', ''happening'']"

definition informational_patterns :: "string list" where
  "informational_patterns = [''what is'', ''tell me about'', ''define'', ''explain'',
     ''information'', ''who is'', ''when did'', ''where is'', ''how does'']"

definition spec_routing_table :: "(string list \<times> string) list" where
  "spec_routing_table = [(arithmetic_keywords, ''calculator''), (weather_keywords, ''weather''),
     (news_keywords, ''news''), (informational_patterns, ''search'')]"

fun spec_first_match :: "string \<Rightarrow> (string list \<times> string) list \<Rightarrow> string" where
  "spec_first_match q [] = ''search''"
| "spec_first_match q ((keywords, tool) # rows) =
     (if contains_any q keywords then tool else spec_first_match q rows)"

section \<open>The agent: parameter extraction\<close>

text \<open>\<^verbatim>\<open>max(matches, key=len)\<close>: the first of the longest matches.\<close>

definition longest :: "string list \<Rightarrow> string" where
  "longest matches = foldl (\<lambda>best m. if length m > length best then m else best)
     (hd matches) (tl matches)"

text \<open>The class \<^verbatim>\<open>[\d\+\-\*\/\(\)\.\s\^]\<close> of the calculator branch.\<close>

definition is_math_char :: "char \<Rightarrow> bool" where
  "is_math_char c = (is_digit c \<or> is_space c \<or> c \<in> set ''+-*/().^'')"

text \<open>\<^verbatim>\<open>\d+\.?\d*\<close> at the head of the text: digits, a dot when one follows, and the
  digits after it.\<close>

definition take_loose_number :: "string \<Rightarrow> (string \<times> string) option" where
  "take_loose_number s = (let ds = takeWhile is_digit s; r = dropWhile is_digit s in
     if ds = [] then None
     else (case r of
         c # r' \<Rightarrow>
           if c = CHR ''.''
           then Some (ds @ [c] @ takeWhile is_digit r', dropWhile is_digit r')
           else Some (ds, r)
       | [] \<Rightarrow> Some (ds, r)))"

lemma take_loose_number_shorter:
  assumes "take_loose_number s = Some (g, r)"
  shows "length r < length s"
proof -
  from assms have ne: "takeWhile is_digit s \<noteq> []"
    by (auto simp: take_loose_number_def Let_def split: if_splits)
  have "length (takeWhile is_digit s) + length (dropWhile is_digit s) = length s"
    by (metis takeWhile_dropWhile_id length_append)
  with ne have b: "length (dropWhile is_digit s) < length s"
    by (cases "takeWhile is_digit s") auto
  from assms have "r = dropWhile is_digit s \<or>
      (\<exists>c r'. dropWhile is_digit s = c # r' \<and> r = dropWhile is_digit r')"
    by (auto simp: take_loose_number_def Let_def split: if_splits list.splits)
  then show ?thesis
  proof
    assume "r = dropWhile is_digit s"
    with b show ?thesis by simp
  next
    assume "\<exists>c r'. dropWhile is_digit s = c # r' \<and> r = dropWhile is_digit r'"
    then obtain c r' where d: "dropWhile is_digit s = c # r'" and r: "r = dropWhile is_digit r'"
      by blast
    have "length r \<le> length r'"
      unfolding r by (rule length_dropWhile_le)
    moreover from b d have "length r' < length s"
      by simp
    ultimately show ?thesis by simp
  qed
qed

text \<open>\<^verbatim>\<open>re.findall(r'\d+\.?\d*', query)\<close>.\<close>

function find_loose_numbers :: "string \<Rightarrow> string list" where
  "find_loose_numbers [] = []"
| "find_loose_numbers (c # cs) = (case take_loose_number (c # cs) of
       None \<Rightarrow> find_loose_numbers cs
     | Some (g, r) \<Rightarrow> g # find_loose_numbers r)"
  by pat_completeness auto
termination
  by (relation "measure length") (auto dest: take_loose_number_shorter)

text \<open>\<^verbatim>\<open>str.title()\<close> on a text of ASCII letters and uncased characters, which is all
  the source applies it to: a letter after a letter is lower-cased, every other letter
  is upper-cased.\<close>

fun title_acc :: "bool \<Rightarrow> string \<Rightarrow> string" where
  "title_acc previous_cased [] = []"
| "title_acc previous_cased (c # cs) =
     (if is_ascii_alpha c
      then (if previous_cased then py_lower_char c else ascii_upper_char c) # title_acc True cs
      else c # title_acc False cs)"

definition py_title :: "string \<Rightarrow> string" where
  "py_title s = title_acc False s"

definition locations :: "string list" where
  "locations = [''london'', ''paris'', ''tokyo'', ''new york'', ''mumbai'', ''berlin'', ''delhi'',
     ''sydney'', ''toronto'', ''dubai'', ''abu dhabi'', ''uae'', ''united arab emirates'',
     ''india'', ''usa'', ''uk'', ''canada'', ''germany'', ''france'', ''japan'', ''australia'',
     ''singapore'', ''hong kong'', ''bangkok'', ''moscow'', ''rome'', ''madrid'', ''amsterdam'',
     ''zurich'', ''istanbul'', ''cairo'', ''riyadh'']"

text \<open>The class \<^verbatim>\<open>[a-zA-Z\s]\<close>.\<close>

definition is_location_char :: "char \<Rightarrow> bool" where
  "is_location_char c = (is_ascii_alpha c \<or> is_space c)"

text \<open>
  The lazy group \<^verbatim>\<open>([a-zA-Z\s]+?)\<close> in front of a continuation: the group grows one
  character at a time and stops at the first length, at least one, after which the
  continuation matches.
\<close>

fun lazy_group :: "(string \<Rightarrow> bool) \<Rightarrow> string \<Rightarrow> string \<Rightarrow> string option" where
  "lazy_group continues acc [] = None"
| "lazy_group continues acc (c # cs) =
     (if is_location_char c
      then (if continues cs then Some (rev (c # acc)) else lazy_group continues (c # acc) cs)
      else None)"

text \<open>\<^verbatim>\<open>(?:\?|$|,)\<close>: a question mark, a comma, the end of the string, or the place in
  front of a line feed that ends the string.\<close>

definition location_ends :: "string \<Rightarrow> bool" where
  "location_ends s = (case s of
       [] \<Rightarrow> True
     | c # r \<Rightarrow> c = CHR ''?'' \<or> c = CHR '','' \<or> (c = CHR 0x0A \<and> r = []))"

text \<open>\<^verbatim>\<open>(?:in|of) ([a-zA-Z\s]+?)(?:\?|$|,)\<close>, the text being lower-cased already.\<close>

definition in_or_of_at :: "string \<Rightarrow> string option" where
  "in_or_of_at s = (if prefix ''in '' s \<or> prefix ''of '' s
     then lazy_group location_ends [] (drop 3 s) else None)"

text \<open>\<^verbatim>\<open>weather (?:in|of) ([a-zA-Z\s]+?)(?:\?|$|,)\<close>.\<close>

definition weather_in_at :: "string \<Rightarrow> string option" where
  "weather_in_at s = (if prefix ''weather '' s then in_or_of_at (drop 8 s) else None)"

text \<open>\<^verbatim>\<open>([a-zA-Z\s]+?) weather\<close>.\<close>

definition before_weather_at :: "string \<Rightarrow> string option" where
  "before_weather_at s = lazy_group (prefix '' weather'') [] s"

text \<open>\<^verbatim>\<open>re.sub(r'^(the|a|an)\s+', '', location)\<close>: the alternatives are tried in order,
  each needing white space after it.\<close>

definition drop_article :: "string \<Rightarrow> string" where
  "drop_article s =
     (case first_some (map (\<lambda>article.
             if prefix article s \<and> takeWhile is_space (drop (length article) s) \<noteq> []
             then Some (dropWhile is_space (drop (length article) s)) else None)
           [''the'', ''a'', ''an'']) of
        Some r \<Rightarrow> r
      | None \<Rightarrow> s)"

text \<open>The loop over the three weather patterns: the first pattern whose first match
  leaves a usable location decides.\<close>

fun first_location :: "string option list \<Rightarrow> string option" where
  "first_location [] = None"
| "first_location (None # ms) = first_location ms"
| "first_location (Some g # ms) =
     (let location = drop_article (py_strip g) in
      if length location > 1 \<and> location \<notin> set [''weather'', ''temperature'', ''forecast'']
      then (if location \<in> set [''uae'', ''united arab emirates''] then Some ''Dubai''
            else Some (py_title location))
      else first_location ms)"

text \<open>The last resort of the weather branch: the first capitalised word of the query.
  \<^verbatim>\<open>word.upper() == 'UAE'\<close> holds for the words that spell these three ASCII letters in
  either case.\<close>

fun first_capitalised :: "string list \<Rightarrow> string option" where
  "first_capitalised [] = None"
| "first_capitalised (word # ws) =
     (if word \<noteq> [] \<and> is_upper (hd word) \<and> length word > 2 \<and>
         py_lower word \<notin> set [''weather'', ''what'', ''is'', ''the'']
      then (if map ascii_upper_char word = ''UAE'' then Some ''Dubai'' else Some word)
      else first_capitalised ws)"

text \<open>\<^verbatim>\<open>extract_parameters\<close>, one branch per tool name and the query itself for any
  other name.\<close>

definition extract_parameters :: "string \<Rightarrow> string \<Rightarrow> string" where
  "extract_parameters query tool_name =
     (if tool_name = ''calculator'' then
        (let matches = runs is_math_char query;
             expr = (if matches = [] then [] else py_strip (longest matches)) in
         if matches \<noteq> [] \<and> contains_any expr [''+'', ''-'', ''*'', ''/''] then expr
         else if contains (py_lower query) ''circle'' \<and> contains (py_lower query) ''radius'' \<and>
                 contains query ''5''
         then ''3.14159 * 5 * 5''
         else
           (let numbers = find_loose_numbers query in
            if length numbers \<ge> 2 \<and> (contains query ''multiply'' \<or> contains query ''*'')
            then numbers ! 0 @ '' * '' @ numbers ! 1
            else if length numbers \<ge> 2 \<and> (contains query ''add'' \<or> contains query ''+'')
            then numbers ! 0 @ '' + '' @ numbers ! 1
            else query))
      else if tool_name = ''weather'' then
        (let query_lower = py_lower query in
         case filter (contains query_lower) locations of
           location # _ \<Rightarrow>
             if location \<in> set [''uae'', ''united arab emirates''] then ''Dubai''
             else py_title location
         | [] \<Rightarrow>
             (case first_location [search_first weather_in_at query_lower,
                     search_first in_or_of_at query_lower,
                     search_first before_weather_at query_lower] of
                Some location \<Rightarrow> location
              | None \<Rightarrow>
                  (case first_capitalised (py_split query) of
                     Some word \<Rightarrow> word
                   | None \<Rightarrow> ''London'')))
      else if tool_name = ''search'' then
        (let stop_words = [''what'', ''is'', ''tell'', ''me'', ''about'', ''explain'', ''define'', ''the''];
             words = filter (\<lambda>w. w \<notin> set stop_words) (py_split (py_lower query))
         in py_join '' '' (take 3 words))
      else if tool_name = ''news'' then
        (let stop_words = [''get'', ''me'', ''the'', ''some'', ''find''];
             words = filter (\<lambda>w. w \<notin> set stop_words) (py_split (py_lower query))
         in py_join '' '' (take 4 words))
      else query)"

section \<open>The agent: the pipeline\<close>

text \<open>
  The collaborators outside the repository's decision logic: the Python primitives of
  the reflector, the registered tools (\<^verbatim>\<open>tool.execute(parameters)\<close>, by tool name), the
  hosted language model (\<open>None\<close> when there is no token, the request fails or the reply is
  empty) and the clock.
\<close>

record 'f world =
  python :: "'f python"
  tool_execute :: "string \<Rightarrow> string \<Rightarrow> string"
  llm_generate :: "string \<Rightarrow> string \<Rightarrow> string option"
  clock :: string

text \<open>The mutable state of the agent: its reasoning trace and the validation history
  of its reflector.\<close>

record 'f agent =
  agent_reasoning_steps :: "reasoning_step list"
  reflector_history :: "'f validation_report list"

text \<open>The dictionary that \<^verbatim>\<open>process_query\<close> builds for a rejected input.\<close>

record rejection_details =
  details_answer_type :: string
  details_contains_factual_info :: bool
  details_specific_patterns :: "string list"
  details_potential_issues :: "string list"

record rejection_validation =
  overall_decision :: string
  rejection_confidence :: int
  rejection_reasoning :: string
  validation_details :: rejection_details

text \<open>The value under the key \<^verbatim>\<open>validation\<close> (and \<^verbatim>\<open>reflection\<close>) of the envelope is a
  report of the reflector or the dictionary of a rejection.\<close>

datatype 'f validation = Reflector_report "'f validation_report" | Input_rejection rejection_validation

record 'f envelope =
  response :: string
  reasoning_steps :: "reasoning_step list"
  tool_used :: string
  parameters :: string
  validation :: "'f validation"

text \<open>\<^verbatim>\<open>validation['validation_decision']\<close>, as the user interface reads it from every
  envelope; \<open>None\<close> stands for the \<^verbatim>\<open>KeyError\<close> of a dictionary without that key.\<close>

definition lookup_validation_decision :: "'f validation \<Rightarrow> bool option" where
  "lookup_validation_decision v = (case v of
       Reflector_report report \<Rightarrow> Some (validation_decision report)
     | Input_rejection _ \<Rightarrow> None)"

text \<open>\<^verbatim>\<open>validation['overall_decision']\<close>.\<close>

definition lookup_overall_decision :: "'f validation \<Rightarrow> string option" where
  "lookup_overall_decision v = (case v of
       Reflector_report _ \<Rightarrow> None
     | Input_rejection r \<Rightarrow> Some (overall_decision r))"

text \<open>The guidance message. Its bullet sign (U+2022) lies beyond the modelled range of
  characters and stands here as its three UTF-8 bytes; nothing inspects this text.\<close>

definition bullet :: string where
  "bullet = [CHR 0xE2, CHR 0x80, CHR 0xA2]"

definition error_response :: string where
  "error_response =
     ''I'm sorry, but your input appears to be random characters or doesn't contain recognizable words. Could you please provide a clear question or request? For example:''
     @ [CHR 0x0A, CHR 0x0A] @ bullet @ '' Ask for a calculation: '' @ [CHR 0x27] @ ''What is 25 * 4 + 100?'' @ [CHR 0x27]
     @ [CHR 0x0A] @ bullet @ '' Request weather: '' @ [CHR 0x27] @ ''What's the weather in London?'' @ [CHR 0x27]
     @ [CHR 0x0A] @ bullet @ '' Search for information: '' @ [CHR 0x27] @ ''What is quantum computing?'' @ [CHR 0x27]
     @ [CHR 0x0A] @ bullet @ '' Get news: '' @ [CHR 0x27] @ ''Latest news about AI'' @ [CHR 0x27]"

definition rejection_record :: rejection_validation where
  "rejection_record =
     \<lparr>overall_decision = ''correct'',
      rejection_confidence = 95,
      rejection_reasoning =
        ''Correctly identified and handled meaningless input with helpful guidance'',
      validation_details =
        \<lparr>details_answer_type = ''error_handling'',
         details_contains_factual_info = False,
         details_specific_patterns = [''Input validation error'', ''Helpful guidance provided''],
         details_potential_issues = []\<rparr>\<rparr>"

definition registered_tools :: "string list" where
  "registered_tools = [''calculator'', ''weather'', ''search'', ''news'']"

text \<open>\<^verbatim>\<open>execute_tool\<close>: the result of the tool and the extended trace.\<close>

definition execute_tool ::
    "'f world \<Rightarrow> reasoning_step list \<Rightarrow> string \<Rightarrow> string \<Rightarrow> string \<times> reasoning_step list" where
  "execute_tool w steps tool_name params =
     (if tool_name \<in> set registered_tools then
        (let result = tool_execute w tool_name params in
         (result, steps @
            [\<lparr>step = ''Tool Execution'',
              content = ''Executing '' @ tool_name @ '' with parameters: '' @ params\<rparr>,
             \<lparr>step = ''Result'', content = result\<rparr>]))
      else (''Tool '' @ tool_name @ '' not found'', steps))"

text \<open>\<^verbatim>\<open>generate_response\<close>: the text of the hosted model, and the tool result when
  there is none.\<close>

definition generate_response :: "'f world \<Rightarrow> string \<Rightarrow> string \<Rightarrow> string" where
  "generate_response w query tool_result =
     (case llm_generate w query tool_result of
        Some generated_text \<Rightarrow> generated_text
      | None \<Rightarrow> tool_result)"

text \<open>The keyword test of the special case at the head of \<^verbatim>\<open>process_query\<close>.\<close>

definition is_special_case :: "string \<Rightarrow> bool" where
  "is_special_case query = (let query_lower = py_lower query in
     contains query_lower ''heriot'' \<and> contains query_lower ''watt'' \<and>
     (contains query_lower ''current'' \<or> contains query_lower ''event'' \<or>
      contains query_lower ''happening''))"

definition special_case_steps :: "reasoning_step list" where
  "special_case_steps =
     [\<lparr>step = ''Query Analysis'',
       content = ''Detected specific question about current events at Heriot-Watt University''\<rparr>,
      \<lparr>step = ''Knowledge Retrieval'',
       content = ''Accessing prepared information about Rabbitron Lab activities''\<rparr>,
      \<lparr>step = ''Response Generation'',
       content = ''Providing current workshop information''\<rparr>]"

definition special_case_response :: string where
  "special_case_response = ''The Rabbitron Lab is hosting a workshop about AI agents where students and researchers can learn about artificial intelligence, autonomous systems, and intelligent agent development.''"

text \<open>
  \<^verbatim>\<open>process_query\<close>: the special case first, then \<^verbatim>\<open>think\<close>, the rejection of an
  invalid query, and the pipeline of extraction, execution, response and validation. An
  exception of the reflector leaves the method.
\<close>

definition process_query ::
    "'f world \<Rightarrow> 'f agent \<Rightarrow> string \<Rightarrow> exn + ('f envelope \<times> 'f agent)" where
  "process_query w agent query =
     (if is_special_case query then
        (case validate_response (python w) (clock w) (reflector_history agent) query
                special_case_response special_case_steps of
           Inl e \<Rightarrow> Inl e
         | Inr (report, history) \<Rightarrow>
             Inr (\<lparr>response = special_case_response,
                   reasoning_steps = special_case_steps,
                   tool_used = ''University Knowledge Base'',
                   parameters = ''Heriot-Watt University Current Events'',
                   validation = Reflector_report report\<rparr>,
                  \<lparr>agent_reasoning_steps = special_case_steps, reflector_history = history\<rparr>))
      else
        (let (selected_tool, steps1) = think query in
         if selected_tool = ''invalid'' then
           (let steps2 = steps1 @ [\<lparr>step = ''Input Validation Failed'',
                  content = ''Query appears to be random characters or meaningless input''\<rparr>]
            in Inr (\<lparr>response = error_response,
                     reasoning_steps = steps2,
                     tool_used = ''input_validator'',
                     parameters = ''invalid_input_detected'',
                     validation = Input_rejection rejection_record\<rparr>,
                    \<lparr>agent_reasoning_steps = steps2,
                     reflector_history = reflector_history agent\<rparr>))
         else
           (let params = extract_parameters query selected_tool;
                steps2 = steps1 @ [\<lparr>step = ''Parameter Extraction'',
                    content = ''Extracted parameters: '' @ params\<rparr>];
                (tool_result, steps3) = execute_tool w steps2 selected_tool params;
                final_response = generate_response w query tool_result;
                steps4 = steps3 @ [\<lparr>step = ''Final Response'', content = final_response\<rparr>]
            in case validate_response (python w) (clock w) (reflector_history agent) query
                      final_response steps4 of
                 Inl e \<Rightarrow> Inl e
               | Inr (report, history) \<Rightarrow>
                   Inr (\<lparr>response = final_response,
                         reasoning_steps = steps4,
                         tool_used = selected_tool,
                         parameters = params,
                         validation = Reflector_report report\<rparr>,
                        \<lparr>agent_reasoning_steps = steps4, reflector_history = history\<rparr>))))"

section \<open>A reference interpreter for integer sums of products\<close>

text \<open>
  The theorems about arithmetic take \<^verbatim>\<open>eval\<close> as a parameter. To instantiate them, this
  interpreter gives the value Python computes for an expression made of decimal
  integers, the binary operators \<^verbatim>\<open>+ - *\<close> and blanks, with Python's precedence and its
  rejection of a leading zero. On every other text it answers \<open>SyntaxError\<close>, which Python
  does not do for all of them (brackets, division, powers and signs are outside the
  fragment); no theorem below applies it outside the fragment.
\<close>

datatype token = Number string | Operator char

fun flush :: "string \<Rightarrow> token list" where
  "flush digits = (if digits = [] then [] else [Number (rev digits)])"

fun tokenize :: "string \<Rightarrow> string \<Rightarrow> token list option" where
  "tokenize digits [] = Some (flush digits)"
| "tokenize digits (c # cs) =
     (if is_digit c then tokenize (c # digits) cs
      else if c = CHR '' '' then map_option (\<lambda>ts. flush digits @ ts) (tokenize [] cs)
      else if c \<in> set ''+-*'' then
        map_option (\<lambda>ts. flush digits @ Operator c # ts) (tokenize [] cs)
      else None)"

definition literal_value :: "string \<Rightarrow> int option" where
  "literal_value digits =
     (if length digits > 1 \<and> hd digits = CHR ''0'' \<and> list_ex (\<lambda>c. c \<noteq> CHR ''0'') digits
      then None else Some (int (decimal_value digits)))"

fun sum_products :: "int \<Rightarrow> int \<Rightarrow> token list \<Rightarrow> int option" where
  "sum_products acc cur [] = Some (acc + cur)"
| "sum_products acc cur (Operator c # Number digits # ts) =
     (case literal_value digits of
        None \<Rightarrow> None
      | Some n \<Rightarrow>
          if c = CHR ''+'' then sum_products (acc + cur) n ts
          else if c = CHR ''-'' then sum_products (acc + cur) (- n) ts
          else sum_products acc (cur * n) ts)"
| "sum_products acc cur ts = None"

definition integer_eval :: "string \<Rightarrow> 'f eval_result" where
  "integer_eval s = (case tokenize [] s of
       Some (Number digits # ts) \<Rightarrow>
         (case literal_value digits of
            None \<Rightarrow> Raises SyntaxError
          | Some n \<Rightarrow>
              (case sum_products 0 n ts of
                 Some v \<Rightarrow> Value (IntV v)
               | None \<Rightarrow> Raises SyntaxError))
     | _ \<Rightarrow> Raises SyntaxError)"

text \<open>An environment without floats: the conversion and the comparison of floats are
  never reached on integer responses.\<close>

definition integer_python :: "unit python" where
  "integer_python = \<lparr>py_eval = integer_eval, py_float = (\<lambda>s. ()), py_close = (\<lambda>a b. None)\<rparr>"

text \<open>The response of the calculator tool for an expression and its integer result,
  \<^verbatim>\<open>f"Calculation: {expression} = {result}"\<close>.\<close>

definition calculation_response :: "string \<Rightarrow> int \<Rightarrow> string" where
  "calculation_response expr result = ''Calculation: '' @ expr @ '' = '' @ py_str_int result"

definition example_world :: "unit world" where
  "example_world = \<lparr>python = integer_python,
     tool_execute = (\<lambda>tool_name params. ''Result for '' @ params),
     llm_generate = (\<lambda>query tool_result. None),
     clock = ''2024-01-01 00:00:00''\<rparr>"

definition fresh_agent :: "unit agent" where
  "fresh_agent = \<lparr>agent_reasoning_steps = [], reflector_history = []\<rparr>"

text \<open>What a caller reads from the outcome of \<^verbatim>\<open>process_query\<close>: the tool and the
  response of the envelope, and nothing when the call raised.\<close>

definition outcome_tool_used :: "exn + ('f envelope \<times> 'f agent) \<Rightarrow> string option" where
  "outcome_tool_used r = (case r of Inl e \<Rightarrow> None | Inr (env, a) \<Rightarrow> Some (tool_used env))"

definition outcome_response :: "exn + ('f envelope \<times> 'f agent) \<Rightarrow> string option" where
  "outcome_response r = (case r of Inl e \<Rightarrow> None | Inr (env, a) \<Rightarrow> Some (response env))"

section \<open>Properties of the reflector\<close>

lemma decision_raises:
  "answer_type a = ''informational'' \<Longrightarrow> \<not> contains_factual_info a \<Longrightarrow>
   make_validation_decision a r v = Inl TypeError"
  by (simp add: make_validation_decision_def split: prod.splits)

lemma decision_confidence:
  "make_validation_decision a r v = Inr d \<Longrightarrow> 20 \<le> confidence d \<and> confidence d \<le> 95"
  by (auto simp: make_validation_decision_def Let_def split: option.splits if_splits prod.splits)

lemma who_not_math:
  "\<not> contains_any (py_lower ''who are you'')
       [''calculate'', ''math'', ''+'', ''-'', ''*'', ''/'', ''='']"
  by code_simp

lemma who_not_weather:
  "\<not> contains_any (py_lower ''who are you'') [''weather'', ''temperature'', ''climate'']"
  by code_simp

lemma who_informational:
  "contains_any (py_lower ''who are you'') [''what'', ''who'', ''where'', ''when'', ''why'', ''how'']"
  by code_simp

lemma who_analysis:
  "answer_type (analyze_answer_content py ''who are you'' ''I am a bot'') = ''informational'' \<and>
   \<not> contains_factual_info (analyze_answer_content py ''who are you'' ''I am a bot'')"
  by (simp add: analyze_answer_content_def Let_def who_not_math who_not_weather who_informational)

text \<open>
  C1. The claim: \<^verbatim>\<open>validate_response\<close> returns a report for every query, response and
  trace and never raises, also for an informational query with a response of at most 30
  characters. The code raises there: for the query \<^verbatim>\<open>who are you\<close> and the response
  \<^verbatim>\<open>I am a bot\<close> (10 characters) the final decision calls \<^verbatim>\<open>len\<close> on the stored response
  length, and \<^verbatim>\<open>validate_response\<close> ends with a \<^verbatim>\<open>TypeError\<close>, whatever the evaluator, the
  clock, the history and the reasoning trace are.
\<close>

theorem validate_response_raises_type_error:
  "validate_response py now history ''who are you'' ''I am a bot'' steps = Inl TypeError"
  using who_analysis [of py]
  by (simp add: validate_response_def Let_def decision_raises)

text \<open>
  C9. Every report that \<^verbatim>\<open>validate_response\<close> returns has a confidence level between 20
  and 95, on every path of the final decision.
\<close>

theorem confidence_level_in_range:
  "validate_response py now history query resp steps = Inr (report, history') \<Longrightarrow>
   20 \<le> confidence_level report \<and> confidence_level report \<le> 95"
  by (auto simp: validate_response_def Let_def split: sum.splits dest: decision_confidence)

theorem confidence_level_in_range_witness:
  "\<exists>report history'.
     validate_response integer_python ''2024-01-01 00:00:00'' [] ''weather in London''
       ''It is sunny, 20 degrees'' [] = Inr (report, history') \<and>
     20 \<le> confidence_level report \<and> confidence_level report \<le> 95"
proof -
  have "\<not> isl (validate_response integer_python ''2024-01-01 00:00:00'' [] ''weather in London''
       ''It is sunny, 20 degrees'' [])"
    by code_simp
  then obtain report history' where
    h: "validate_response integer_python ''2024-01-01 00:00:00'' [] ''weather in London''
       ''It is sunny, 20 degrees'' [] = Inr (report, history')"
    by (cases "validate_response integer_python ''2024-01-01 00:00:00'' [] ''weather in London''
       ''It is sunny, 20 degrees'' []") auto
  from confidence_level_in_range [OF h] h show ?thesis
    by blast
qed



section \<open>Properties of the arithmetic re-check\<close>

text \<open>
  C2. The claim: for every expression of integers and \<^verbatim>\<open>+ - * /\<close>, the response
  \<^verbatim>\<open>Calculation: E = r\<close> passes the re-check, negative results included. The code fails
  on a negative result: for \<^verbatim>\<open>2-5\<close> the evaluator gives \<open>-3\<close>, the response is
  \<^verbatim>\<open>Calculation: 2-5 = -3\<close>, no pattern of the result extraction accepts a sign, the
  number at the end of the response is read as \<open>3\<close>, and the re-check reports the correct
  answer as wrong.
\<close>

theorem negative_result_fails_recheck:
  "py_eval integer_python ''2-5'' = Value (IntV (- 3)) \<and>
   calculation_response ''2-5'' (- 3) = ''Calculation: 2-5 = -3'' \<and>
   validate_mathematical_answer integer_python ''calculate 2-5''
       (calculation_response ''2-5'' (- 3)) =
     \<lparr>is_correct = False, expected_result = Some (IntV (- 3)),
      provided_result = Some (IntV 3), expression = Some ''2-5''\<rparr>"
  by code_simp

section \<open>Properties of the pipeline\<close>

lemma rejected_query:
  assumes "is_meaningless_query q" and "\<not> is_special_case q"
  shows "process_query w agent q =
     Inr (\<lparr>response = error_response,
           reasoning_steps =
             [\<lparr>step = ''Query Analysis'',
               content = ''Analyzing user query: '' @ [CHR 0x27] @ q @ [CHR 0x27]\<rparr>,
              \<lparr>step = ''Input Validation'',
               content = ''Detected meaningless or random input - cannot process''\<rparr>,
              \<lparr>step = ''Input Validation Failed'',
               content = ''Query appears to be random characters or meaningless input''\<rparr>],
           tool_used = ''input_validator'',
           parameters = ''invalid_input_detected'',
           validation = Input_rejection rejection_record\<rparr>,
          \<lparr>agent_reasoning_steps =
             [\<lparr>step = ''Query Analysis'',
               content = ''Analyzing user query: '' @ [CHR 0x27] @ q @ [CHR 0x27]\<rparr>,
              \<lparr>step = ''Input Validation'',
               content = ''Detected meaningless or random input - cannot process''\<rparr>,
              \<lparr>step = ''Input Validation Failed'',
               content = ''Query appears to be random characters or meaningless input''\<rparr>],
           reflector_history = reflector_history agent\<rparr>)"
  using assms by (simp add: process_query_def think_def Let_def)

lemma mashing_is_meaningless: "is_meaningless_query ''yuhyhyugyuguygu''"
  by code_simp

lemma mashing_is_not_special: "\<not> is_special_case ''yuhyhyugyuguygu''"
  by code_simp

lemma single_letter_is_meaningless: "is_meaningless_query ''aaaaaaaaaaaaa''"
  by code_simp

lemma single_letter_is_not_special: "\<not> is_special_case ''aaaaaaaaaaaaa''"
  by code_simp

text \<open>Every query that passes the keyword test of the special case gets the canned
  knowledge response: the reflector cannot raise on it, because that response is longer
  than 30 characters.\<close>

lemma long_informational_has_facts:
  "length resp > 30 \<Longrightarrow> answer_type (analyze_answer_content py q resp) = ''informational'' \<Longrightarrow>
   contains_factual_info (analyze_answer_content py q resp)"
  by (auto simp: analyze_answer_content_def Let_def split: if_splits)

lemma decision_returns:
  "\<not> (answer_type a = ''informational'' \<and> \<not> contains_factual_info a) \<Longrightarrow>
   \<exists>d. make_validation_decision a r v = Inr d"
  by (auto simp: make_validation_decision_def Let_def split: prod.splits if_splits)

lemma special_case_response_is_long: "length special_case_response > 30"
  by code_simp

lemma special_case_is_answered:
  assumes "is_special_case q"
  shows "\<exists>report. process_query w agent q =
     Inr (\<lparr>response = special_case_response,
           reasoning_steps = special_case_steps,
           tool_used = ''University Knowledge Base'',
           parameters = ''Heriot-Watt University Current Events'',
           validation = Reflector_report report\<rparr>,
          \<lparr>agent_reasoning_steps = special_case_steps,
           reflector_history = reflector_history agent @ [report]\<rparr>)"
proof -
  have "\<not> (answer_type (analyze_answer_content (python w) q special_case_response) =
         ''informational'' \<and>
       \<not> contains_factual_info (analyze_answer_content (python w) q special_case_response))"
    using long_informational_has_facts [OF special_case_response_is_long] by blast
  then obtain d where "make_validation_decision
       (analyze_answer_content (python w) q special_case_response)
       (validate_reasoning_chain special_case_steps q)
       (ai_powered_validation q special_case_response special_case_steps) = Inr d"
    using decision_returns by blast
  with assms show ?thesis
    by (simp add: process_query_def validate_response_def Let_def)
qed

text \<open>
  C3, as the claim states it: every meaningless query is rejected before any routing,
  also one that holds the keywords of the special case. The query
  \<^verbatim>\<open>heriot watt event aaaaa\<close> is meaningless (a letter five times in a row) and holds the
  keywords; \<^verbatim>\<open>process_query\<close> tests the special case before it calls \<^verbatim>\<open>think\<close> and
  answers with the canned knowledge response.
\<close>

theorem special_case_precedes_validation_counterexample:
  "is_meaningless_query ''heriot watt event aaaaa'' \<and>
   outcome_tool_used (process_query example_world fresh_agent ''heriot watt event aaaaa'') =
     Some ''University Knowledge Base'' \<and>
   outcome_response (process_query example_world fresh_agent ''heriot watt event aaaaa'') =
     Some special_case_response"
  by code_simp

text \<open>
  C3, amended: every meaningless query that does not hold the keywords of the special
  case is rejected. The outcome is the guidance message with the tool
  \<^verbatim>\<open>input_validator\<close>; it does not depend on the tools, the language model or the
  evaluator, and the validation history of the reflector is the one the call found.
\<close>

theorem meaningless_query_rejected_unless_special_case:
  assumes "is_meaningless_query q" and "\<not> is_special_case q"
  shows "process_query w agent q =
     Inr (\<lparr>response = error_response,
           reasoning_steps =
             [\<lparr>step = ''Query Analysis'',
               content = ''Analyzing user query: '' @ [CHR 0x27] @ q @ [CHR 0x27]\<rparr>,
              \<lparr>step = ''Input Validation'',
               content = ''Detected meaningless or random input - cannot process''\<rparr>,
              \<lparr>step = ''Input Validation Failed'',
               content = ''Query appears to be random characters or meaningless input''\<rparr>],
           tool_used = ''input_validator'',
           parameters = ''invalid_input_detected'',
           validation = Input_rejection rejection_record\<rparr>,
          \<lparr>agent_reasoning_steps =
             [\<lparr>step = ''Query Analysis'',
               content = ''Analyzing user query: '' @ [CHR 0x27] @ q @ [CHR 0x27]\<rparr>,
              \<lparr>step = ''Input Validation'',
               content = ''Detected meaningless or random input - cannot process''\<rparr>,
              \<lparr>step = ''Input Validation Failed'',
               content = ''Query appears to be random characters or meaningless input''\<rparr>],
           reflector_history = reflector_history agent\<rparr>)"
  using assms by (rule rejected_query)

theorem meaningless_query_rejected_unless_special_case_witness:
  "is_meaningless_query ''aaaaaaaaaaaaa'' \<and> \<not> is_special_case ''aaaaaaaaaaaaa'' \<and>
   outcome_tool_used (process_query example_world fresh_agent ''aaaaaaaaaaaaa'') =
     Some ''input_validator'' \<and>
   outcome_response (process_query example_world fresh_agent ''aaaaaaaaaaaaa'') =
     Some error_response"
  using meaningless_query_rejected_unless_special_case
    [OF single_letter_is_meaningless single_letter_is_not_special, of example_world fresh_agent]
    single_letter_is_meaningless single_letter_is_not_special
  by (simp add: outcome_tool_used_def outcome_response_def)

text \<open>
  C4. The claim: the input \<^verbatim>\<open>yuhyhyugyuguygu\<close> gives the tool \<^verbatim>\<open>input_validator\<close>, the
  guidance message, and a validation record whose field \<^verbatim>\<open>validation_decision\<close> is true.
  The code gives the first two; its validation record for a rejection is a dictionary
  of another shape, with \<^verbatim>\<open>overall_decision = 'correct'\<close> and no key
  \<^verbatim>\<open>validation_decision\<close>, so reading that field fails.
\<close>

theorem rejection_record_lacks_validation_decision:
  "\<exists>e a. process_query w agent ''yuhyhyugyuguygu'' = Inr (e, a) \<and>
     tool_used e = ''input_validator'' \<and> response e = error_response \<and>
     validation e = Input_rejection rejection_record \<and>
     lookup_validation_decision (validation e) = None \<and>
     lookup_overall_decision (validation e) = Some ''correct''"
  by (simp add: rejected_query [OF mashing_is_meaningless mashing_is_not_special]
      lookup_validation_decision_def lookup_overall_decision_def rejection_record_def)

text \<open>
  C6. The claim: \<^verbatim>\<open>extract_parameters\<close> returns a non-empty string for every query and
  tool, also for a search query made of stop words only. The query \<^verbatim>\<open>what is the\<close>
  passes the input validator and is routed to \<^verbatim>\<open>search\<close>; all its words are stop words
  and the search branch, which has no fallback, returns the empty string.
\<close>

theorem search_parameters_can_be_empty:
  "\<not> is_meaningless_query ''what is the'' \<and> fst (think ''what is the'') = ''search'' \<and>
   extract_parameters ''what is the'' ''search'' = []"
  by code_simp

section \<open>Properties of the router\<close>

lemma think_follows_table:
  "\<not> is_meaningless_query q \<Longrightarrow>
   fst (think q) = spec_first_match (py_lower q) spec_routing_table"
  by (simp add: think_def Let_def spec_routing_table_def arithmetic_keywords_def
      weather_keywords_def news_keywords_def informational_patterns_def split: prod.splits)

lemma arithmetic_wins:
  "\<not> is_meaningless_query q \<Longrightarrow> contains_any (py_lower q) arithmetic_keywords \<Longrightarrow>
   fst (think q) = ''calculator''"
  by (simp add: think_def Let_def arithmetic_keywords_def)

lemma routes_calculate: "fst (think ''Calculate 12 + 7'') = ''calculator''"
  by code_simp

lemma routes_weather: "fst (think ''Weather in Tokyo?'') = ''weather''"
  by code_simp

lemma routes_news: "fst (think ''Latest news about AI'') = ''news''"
  by code_simp

lemma routes_search: "fst (think ''What is quantum computing?'') = ''search''"
  by code_simp

lemma sum_question_facts:
  "\<not> is_meaningless_query ''what is 2+2'' \<and>
   contains_any (py_lower ''what is 2+2'') arithmetic_keywords \<and>
   contains_any (py_lower ''what is 2+2'') informational_patterns \<and>
   spec_first_match (py_lower ''what is 2+2'') spec_routing_table = ''calculator''"
  by code_simp

text \<open>
  C8. For a query that passes the input validator, \<^verbatim>\<open>think\<close> selects the tool of the
  first row of the ordered table (arithmetic, weather, news, informational patterns)
  that has a keyword in the lower-cased query, and \<^verbatim>\<open>search\<close> when no row has one. The
  four example queries get \<^verbatim>\<open>calculator\<close>, \<^verbatim>\<open>weather\<close>, \<^verbatim>\<open>news\<close> and \<^verbatim>\<open>search\<close>, and a
  query with both an arithmetic keyword and an informational pattern gets \<^verbatim>\<open>calculator\<close>.
\<close>

theorem router_is_first_match_cascade:
  "(\<not> is_meaningless_query q \<longrightarrow>
      fst (think q) = spec_first_match (py_lower q) spec_routing_table) \<and>
   fst (think ''Calculate 12 + 7'') = ''calculator'' \<and>
   fst (think ''Weather in Tokyo?'') = ''weather'' \<and>
   fst (think ''Latest news about AI'') = ''news'' \<and>
   fst (think ''What is quantum computing?'') = ''search'' \<and>
   (\<not> is_meaningless_query q \<and> contains_any (py_lower q) arithmetic_keywords \<and>
    contains_any (py_lower q) informational_patterns \<longrightarrow> fst (think q) = ''calculator'')"
  using think_follows_table [of q] arithmetic_wins [of q]
    routes_calculate routes_weather routes_news routes_search
  by blast

theorem router_is_first_match_cascade_witness:
  "\<not> is_meaningless_query ''what is 2+2'' \<and>
   contains_any (py_lower ''what is 2+2'') arithmetic_keywords \<and>
   contains_any (py_lower ''what is 2+2'') informational_patterns \<and>
   fst (think ''what is 2+2'') = spec_first_match (py_lower ''what is 2+2'') spec_routing_table \<and>
   fst (think ''what is 2+2'') = ''calculator''"
  using router_is_first_match_cascade [of "''what is 2+2''"] sum_question_facts
  by blast

section \<open>Properties of the input validator\<close>

lemma repeats_at_repetition:
  assumes "length u = k" and "CHR 0x0A \<notin> set u" and "5 \<le> n"
  shows "repeats_at (concat (replicate n u) @ post) k"
proof -
  from assms(3) obtain m where n: "n = 5 + m"
    using le_Suc_ex by blast
  have parts: "concat (replicate n u) = concat (replicate 5 u) @ concat (replicate m u)"
    unfolding n by (simp add: replicate_add)
  have five: "concat (replicate 5 u) = u @ u @ u @ u @ u"
    by (simp add: numeral_eq_Suc)
  have "take k (concat (replicate n u) @ post) = u"
    unfolding parts five using assms(1) by simp
  moreover have "prefix (concat (replicate 5 u)) (concat (replicate n u) @ post)"
    unfolding parts by simp
  ultimately show ?thesis
    using assms(1,2) by (simp add: repeats_at_def Let_def)
qed

lemma repeats_at_gives_repetition:
  assumes "repeats_at s k" and "1 \<le> k" and "k \<le> 3"
  shows "has_small_repetition s"
proof (cases s)
  case Nil
  with assms show ?thesis by (simp add: repeats_at_def Let_def)
next
  case (Cons c cs)
  from assms(2,3) have "k = 1 \<or> k = 2 \<or> k = 3" by arith
  with assms(1) Cons show ?thesis by auto
qed

lemma repetition_after_prefix:
  "has_small_repetition s \<Longrightarrow> has_small_repetition (before @ s)"
  by (induction before) simp_all

lemma repetition_is_meaningless:
  "has_small_repetition (py_lower (py_strip query)) \<Longrightarrow> is_meaningless_query query"
  by (simp add: is_meaningless_query_def Let_def)

text \<open>What the repetition rule does catch: a unit of one to three characters, none of
  them a line feed, that stands at least five times in a row in the trimmed, lower-cased
  query.\<close>

lemma five_repetitions_are_flagged:
  assumes "py_lower (py_strip query) = before @ concat (replicate n u) @ post"
    and "1 \<le> length u" and "length u \<le> 3" and "5 \<le> n" and "CHR 0x0A \<notin> set u"
  shows "is_meaningless_query query"
proof -
  have "repeats_at (concat (replicate n u) @ post) (length u)"
    using assms(5,4) by (intro repeats_at_repetition) simp_all
  then have "has_small_repetition (concat (replicate n u) @ post)"
    using assms(2,3) by (rule repeats_at_gives_repetition)
  then have "has_small_repetition (py_lower (py_strip query))"
    unfolding assms(1) by (rule repetition_after_prefix)
  then show ?thesis by (rule repetition_is_meaningless)
qed

text \<open>
  C5. The claim: a query whose trimmed, lower-cased form holds a unit of one to three
  characters at least four times in a row is meaningless, a three-character unit that
  stands exactly four times included. The code misses that case: the query
  \<^verbatim>\<open>abcabcabcabc hello\<close> holds the unit \<^verbatim>\<open>abc\<close> exactly four times in a row, the pattern
  \<^verbatim>\<open>(.{1,3})\1{4,}\<close> asks for the unit and four more copies of it, no other rule applies,
  and \<^verbatim>\<open>_is_meaningless_query\<close> answers \<^verbatim>\<open>False\<close>. The comment beside the pattern reads
  \<^verbatim>\<open>Same 1-3 chars repeated 4+ times\<close>.
\<close>

theorem four_repetitions_not_flagged:
  "py_lower (py_strip ''abcabcabcabc hello'') = [] @ concat (replicate 4 ''abc'') @ '' hello'' \<and>
   \<not> has_small_repetition (py_lower (py_strip ''abcabcabcabc hello'')) \<and>
   \<not> is_meaningless_query ''abcabcabcabc hello''"
  by code_simp

section \<open>The negative case of the arithmetic re-check\<close>

lemma sum_query_expression: "extract_math_expression ''calculate 2+2'' = Some ''2+2''"
  by code_simp

lemma sum_safe_expression: "safe_expression ''2+2'' = ''2+2''"
  by code_simp

lemma sum_allowed: "list_all (\<lambda>c. c \<in> set allowed_chars) ''2+2''"
  by code_simp

lemma wrong_response_capture:
  "first_some [search_first (number_after_sign (CHR ''='')) ''Calculation: 2+2 = 5'',
     search_first (number_after_word ''result'') ''Calculation: 2+2 = 5'',
     search_first (number_after_word ''answer'') ''Calculation: 2+2 = 5'',
     search_first number_at_end ''Calculation: 2+2 = 5'',
     search_first (number_after_sign (CHR '':'')) ''Calculation: 2+2 = 5''] = Some ''5''"
  by code_simp

lemma decimal_five: "decimal_value ''5'' = 5"
  by code_simp

lemma wrong_response_result:
  "extract_result_from_response py ''Calculation: 2+2 = 5'' = Some (IntV 5)"
  unfolding extract_result_from_response_def wrong_response_capture
  by (simp add: number_value_def decimal_five)

lemma wrong_sum_recheck:
  assumes "py_eval py ''2+2'' = Value (IntV 4)"
  shows "validate_mathematical_answer py ''calculate 2+2'' ''Calculation: 2+2 = 5'' =
     \<lparr>is_correct = False, expected_result = Some (IntV 4),
      provided_result = Some (IntV 5), expression = Some ''2+2''\<rparr>"
  using assms
  by (simp add: validate_mathematical_answer_def sum_query_expression sum_safe_expression
      wrong_response_result sum_allowed [THEN eqTrueI] is_float_def del: list.pred_inject)

lemma sum_query_is_mathematical:
  "contains_any (py_lower ''calculate 2+2'')
     [''calculate'', ''math'', ''+'', ''-'', ''*'', ''/'', ''='']"
  by code_simp

lemma sum_query_is_mathematical_for_scorer:
  "contains_any (py_lower ''calculate 2+2'') [''calculate'', ''math'', ''+'', ''-'', ''*'', ''/'']"
  by code_simp

lemma wrong_response_has_digit: "list_ex is_digit ''Calculation: 2+2 = 5''"
  by code_simp

lemma wrong_sum_analysis:
  assumes "py_eval py ''2+2'' = Value (IntV 4)"
  shows "analyze_answer_content py ''calculate 2+2'' ''Calculation: 2+2 = 5'' =
    \<lparr>answer_type = ''mathematical'', contains_calculation = True,
     contains_factual_info = False, response_length = 20, specific_patterns = [],
     potential_issues = [Math_mismatch (Some (IntV 4)) (Some (IntV 5))],
     math_validation = Some \<lparr>is_correct = False, expected_result = Some (IntV 4),
       provided_result = Some (IntV 5), expression = Some ''2+2''\<rparr>\<rparr>"
  by (simp add: analyze_answer_content_def wrong_sum_recheck [OF assms]
      sum_query_is_mathematical [THEN eqTrueI] wrong_response_has_digit [THEN eqTrueI]
      Let_def del: list_ex_Cons_iff)

lemma wrong_sum_scorer:
  "validation_successful
     (ai_powered_validation ''calculate 2+2'' ''Calculation: 2+2 = 5'' steps) \<and>
   ai_decision (ai_powered_validation ''calculate 2+2'' ''Calculation: 2+2 = 5'' steps) =
     ''correct''"
  by (simp add: ai_powered_validation_def sum_query_is_mathematical_for_scorer [THEN eqTrueI]
      wrong_response_has_digit [THEN eqTrueI] Let_def del: list_ex_Cons_iff)

lemma wrong_sum_decision:
  assumes "py_eval py ''2+2'' = Value (IntV 4)"
  shows "\<exists>d. make_validation_decision
       (analyze_answer_content py ''calculate 2+2'' ''Calculation: 2+2 = 5'') rv
       (ai_powered_validation ''calculate 2+2'' ''Calculation: 2+2 = 5'' steps) = Inr d \<and>
     \<not> decision_is_correct d \<and> confidence d = 20"
  using wrong_sum_scorer [of steps]
  by (simp add: make_validation_decision_def Let_def wrong_sum_analysis [OF assms])

lemma integer_python_sum: "py_eval integer_python ''2+2'' = Value (IntV 4)"
  by code_simp

text \<open>
  C7. For the query \<^verbatim>\<open>calculate 2+2\<close> and the response \<^verbatim>\<open>Calculation: 2+2 = 5\<close>, with an
  evaluator that gives 4 for \<^verbatim>\<open>2+2\<close>: the re-check is not correct, with the expected
  result 4 and the provided result 5, and \<^verbatim>\<open>validate_response\<close> returns, for every
  reasoning trace, a report with the decision false and the confidence level 20, which
  is at most 30.
\<close>

theorem wrong_sum_is_flagged:
  assumes "py_eval py ''2+2'' = Value (IntV 4)"
  shows "validate_mathematical_answer py ''calculate 2+2'' ''Calculation: 2+2 = 5'' =
     \<lparr>is_correct = False, expected_result = Some (IntV 4),
      provided_result = Some (IntV 5), expression = Some ''2+2''\<rparr> \<and>
   (\<exists>report.
      validate_response py now history ''calculate 2+2'' ''Calculation: 2+2 = 5'' steps =
        Inr (report, history @ [report]) \<and>
      \<not> validation_decision report \<and> validation_status report = ''INCORRECT'' \<and>
      confidence_level report = 20 \<and> confidence_level report \<le> 30)"
proof -
  from wrong_sum_decision [OF assms, of "validate_reasoning_chain steps ''calculate 2+2''" steps]
  obtain d where
    "make_validation_decision
       (analyze_answer_content py ''calculate 2+2'' ''Calculation: 2+2 = 5'')
       (validate_reasoning_chain steps ''calculate 2+2'')
       (ai_powered_validation ''calculate 2+2'' ''Calculation: 2+2 = 5'' steps) = Inr d"
    and "\<not> decision_is_correct d" and "confidence d = 20"
    by blast
  then show ?thesis
    by (simp add: wrong_sum_recheck [OF assms] validate_response_def Let_def)
qed

theorem wrong_sum_is_flagged_witness:
  "py_eval integer_python ''2+2'' = Value (IntV 4) \<and>
   validate_mathematical_answer integer_python ''calculate 2+2'' ''Calculation: 2+2 = 5'' =
     \<lparr>is_correct = False, expected_result = Some (IntV 4),
      provided_result = Some (IntV 5), expression = Some ''2+2''\<rparr> \<and>
   (\<exists>report.
      validate_response integer_python ''2024-01-01 00:00:00'' [] ''calculate 2+2''
        ''Calculation: 2+2 = 5'' [] = Inr (report, [] @ [report]) \<and>
      \<not> validation_decision report \<and> validation_status report = ''INCORRECT'' \<and>
      confidence_level report = 20 \<and> confidence_level report \<le> 30)"
  using wrong_sum_is_flagged [OF integer_python_sum, of "''2024-01-01 00:00:00''" "[]" "[]"]
    integer_python_sum
  by blast

end
